theory Spec2Isabelle
  imports Main "HOL-Library.Sublist"
begin

section \<open>JavaScript values and strings\<close>

text \<open>
  The repository holds two versions of one browser script: \<^verbatim>\<open>src/web/script.js\<close> and
  \<^verbatim>\<open>src/unnamed/part_000\<close>. The second one guards its inputs (a status check in the
  loaders, fallback values in the templates, a guard in \<^verbatim>\<open>openVideo\<close>); it is called the
  defensive version below and its functions carry the suffix \<open>D\<close>. The functions of
  \<^verbatim>\<open>src/web/script.js\<close> keep their names.

  A JavaScript string is modelled by the \<^typ>\<open>string\<close> of the bytes of its UTF-8 encoding, so
  that equality and concatenation are those of the script. A value that may be
  \<^verbatim>\<open>undefined\<close> has an option type, \<^term>\<open>None\<close> being \<^verbatim>\<open>undefined\<close>.
  Exceptions are values of the type \<open>exn\<close>, and a function that may throw returns a sum
  with the exception on the left.

  \<^verbatim>\<open>String.prototype.toLowerCase\<close> is a function of the platform, with the case mapping
  of Unicode behind it. It is not modelled: the functions that call it take it as their
  first argument, named \<open>toLowerCase\<close>, and what is proved of them holds for every such
  function.
\<close>

datatype exn = TypeError | SyntaxError | NetworkError | Error string

text \<open>Template interpolation \<^verbatim>\<open>${v}\<close> of a string that may be \<^verbatim>\<open>undefined\<close>.\<close>

definition interp :: "string option \<Rightarrow> string" where
  "interp v = (case v of None \<Rightarrow> ''undefined'' | Some s \<Rightarrow> s)"

text \<open>
  The renderers use a number of the data, the \<^verbatim>\<open>id\<close> of an article, in a template
  interpolation only. A number is therefore kept as the text that the interpolation
  prints for it (the result of \<^verbatim>\<open>Number::toString\<close>).
\<close>

type_synonym jsnum = string

definition interp_num :: "jsnum option \<Rightarrow> string" where
  "interp_num v = (case v of None \<Rightarrow> ''undefined'' | Some n \<Rightarrow> n)"

text \<open>
  \<^verbatim>\<open>v || d\<close> on a string that may be \<^verbatim>\<open>undefined\<close>: the fallback \<open>d\<close> is taken when
  \<open>v\<close> is \<^verbatim>\<open>undefined\<close> or the empty string, the two falsy values of that type.
\<close>

definition or_else :: "string option \<Rightarrow> string \<Rightarrow> string" where
  "or_else v d = (case v of None \<Rightarrow> d | Some s \<Rightarrow> if s = [] then d else s)"

text \<open>\<^verbatim>\<open>v || []\<close> on an array that may be \<^verbatim>\<open>undefined\<close> (every array is truthy).\<close>

definition array_or_empty :: "'a list option \<Rightarrow> 'a list" where
  "array_or_empty v = (case v of None \<Rightarrow> [] | Some xs \<Rightarrow> xs)"

text \<open>\<^verbatim>\<open>Array.prototype.join\<close> on an array of strings.\<close>

fun join :: "string \<Rightarrow> string list \<Rightarrow> string" where
  "join sep [] = []"
| "join sep [x] = x"
| "join sep (x # y # ys) = x @ sep @ join sep (y # ys)"

text \<open>
  The values of \<^verbatim>\<open>String.prototype.toLowerCase\<close> on strings of ASCII characters: \<open>A\<close>
  to \<open>Z\<close> go to \<open>a\<close> to \<open>z\<close>, every other character stays. It stands for the
  platform's function on such strings only, and is used below only to evaluate the
  filters on sample data whose strings are ASCII.
\<close>

definition ascii_lower_char :: "char \<Rightarrow> char" where
  "ascii_lower_char c =
     (let n = (of_char c :: nat) in if 65 \<le> n \<and> n \<le> 90 then char_of (n + 32) else c)"

definition ascii_toLowerCase :: "string \<Rightarrow> string" where
  "ascii_toLowerCase s = map ascii_lower_char s"

text \<open>
  \<^verbatim>\<open>Array.prototype.map\<close> with a callback that may throw: the first exception ends
  the traversal.
\<close>

fun map_throw :: "('a \<Rightarrow> exn + 'b) \<Rightarrow> 'a list \<Rightarrow> exn + 'b list" where
  "map_throw f [] = Inr []"
| "map_throw f (x # xs) =
     (case f x of
        Inl e \<Rightarrow> Inl e
      | Inr y \<Rightarrow> (case map_throw f xs of Inl e \<Rightarrow> Inl e | Inr ys \<Rightarrow> Inr (y # ys)))"


section \<open>Texts of the page\<close>

text \<open>\<open>ru_read_article\<close>: the UTF-8 bytes of the link text, Russian for "Read the article".\<close>

definition ru_read_article :: string where
  \<open>ru_read_article =
     [CHR 0xD0, CHR 0xA7, CHR 0xD0, CHR 0xB8, CHR 0xD1, CHR 0x82, CHR 0xD0, CHR 0xB0, CHR 0xD1, CHR 0x82, CHR 0xD1, CHR 0x8C]
   @ '' ''
   @ [CHR 0xD1, CHR 0x81, CHR 0xD1, CHR 0x82, CHR 0xD0, CHR 0xB0, CHR 0xD1, CHR 0x82, CHR 0xD1, CHR 0x8C, CHR 0xD1, CHR 0x8E]\<close>

text \<open>\<open>ru_articles_load_error\<close>: the UTF-8 bytes of Russian for "Error loading articles".\<close>

definition ru_articles_load_error :: string where
  \<open>ru_articles_load_error =
     [CHR 0xD0, CHR 0x9E, CHR 0xD1, CHR 0x88, CHR 0xD0, CHR 0xB8, CHR 0xD0, CHR 0xB1, CHR 0xD0, CHR 0xBA, CHR 0xD0, CHR 0xB0]
   @ '' ''
   @ [CHR 0xD0, CHR 0xB7, CHR 0xD0, CHR 0xB0, CHR 0xD0, CHR 0xB3, CHR 0xD1, CHR 0x80, CHR 0xD1, CHR 0x83, CHR 0xD0, CHR 0xB7, CHR 0xD0, CHR 0xBA, CHR 0xD0, CHR 0xB8]
   @ '' ''
   @ [CHR 0xD1, CHR 0x81, CHR 0xD1, CHR 0x82, CHR 0xD0, CHR 0xB0, CHR 0xD1, CHR 0x82, CHR 0xD0, CHR 0xB5, CHR 0xD0, CHR 0xB9]\<close>

text \<open>\<open>ru_videos_load_error\<close>: the UTF-8 bytes of Russian for "Error loading videos".\<close>

definition ru_videos_load_error :: string where
  \<open>ru_videos_load_error =
     [CHR 0xD0, CHR 0x9E, CHR 0xD1, CHR 0x88, CHR 0xD0, CHR 0xB8, CHR 0xD0, CHR 0xB1, CHR 0xD0, CHR 0xBA, CHR 0xD0, CHR 0xB0]
   @ '' ''
   @ [CHR 0xD0, CHR 0xB7, CHR 0xD0, CHR 0xB0, CHR 0xD0, CHR 0xB3, CHR 0xD1, CHR 0x80, CHR 0xD1, CHR 0x83, CHR 0xD0, CHR 0xB7, CHR 0xD0, CHR 0xBA, CHR 0xD0, CHR 0xB8]
   @ '' ''
   @ [CHR 0xD0, CHR 0xB2, CHR 0xD0, CHR 0xB8, CHR 0xD0, CHR 0xB4, CHR 0xD0, CHR 0xB5, CHR 0xD0, CHR 0xBE]\<close>

text \<open>\<open>ru_load_error\<close>: the UTF-8 bytes of Russian for "Loading error".\<close>

definition ru_load_error :: string where
  \<open>ru_load_error =
     [CHR 0xD0, CHR 0x9E, CHR 0xD1, CHR 0x88, CHR 0xD0, CHR 0xB8, CHR 0xD0, CHR 0xB1, CHR 0xD0, CHR 0xBA, CHR 0xD0, CHR 0xB0]
   @ '' ''
   @ [CHR 0xD0, CHR 0xB7, CHR 0xD0, CHR 0xB0, CHR 0xD0, CHR 0xB3, CHR 0xD1, CHR 0x80, CHR 0xD1, CHR 0x83, CHR 0xD0, CHR 0xB7, CHR 0xD0, CHR 0xBA, CHR 0xD0, CHR 0xB8]\<close>

text \<open>\<open>ru_articles_failed\<close>: the UTF-8 bytes of a cross mark and the Russian for "Could not load the articles".\<close>

definition ru_articles_failed :: string where
  \<open>ru_articles_failed =
     [CHR 0xE2, CHR 0x9D, CHR 0x8C]
   @ '' ''
   @ [CHR 0xD0, CHR 0x9D, CHR 0xD0, CHR 0xB5]
   @ '' ''
   @ [CHR 0xD1, CHR 0x83, CHR 0xD0, CHR 0xB4, CHR 0xD0, CHR 0xB0, CHR 0xD0, CHR 0xBB, CHR 0xD0, CHR 0xBE, CHR 0xD1, CHR 0x81, CHR 0xD1, CHR 0x8C]
   @ '' ''
   @ [CHR 0xD0, CHR 0xB7, CHR 0xD0, CHR 0xB0, CHR 0xD0, CHR 0xB3, CHR 0xD1, CHR 0x80, CHR 0xD1, CHR 0x83, CHR 0xD0, CHR 0xB7, CHR 0xD0, CHR 0xB8, CHR 0xD1, CHR 0x82, CHR 0xD1, CHR 0x8C]
   @ '' ''
   @ [CHR 0xD1, CHR 0x81, CHR 0xD1, CHR 0x82, CHR 0xD0, CHR 0xB0, CHR 0xD1, CHR 0x82, CHR 0xD1, CHR 0x8C, CHR 0xD0, CHR 0xB8]\<close>

text \<open>\<open>ru_videos_failed\<close>: the UTF-8 bytes of a cross mark and the Russian for "Could not load the videos".\<close>

definition ru_videos_failed :: string where
  \<open>ru_videos_failed =
     [CHR 0xE2, CHR 0x9D, CHR 0x8C]
   @ '' ''
   @ [CHR 0xD0, CHR 0x9D, CHR 0xD0, CHR 0xB5]
   @ '' ''
   @ [CHR 0xD1, CHR 0x83, CHR 0xD0, CHR 0xB4, CHR 0xD0, CHR 0xB0, CHR 0xD0, CHR 0xBB, CHR 0xD0, CHR 0xBE, CHR 0xD1, CHR 0x81, CHR 0xD1, CHR 0x8C]
   @ '' ''
   @ [CHR 0xD0, CHR 0xB7, CHR 0xD0, CHR 0xB0, CHR 0xD0, CHR 0xB3, CHR 0xD1, CHR 0x80, CHR 0xD1, CHR 0x83, CHR 0xD0, CHR 0xB7, CHR 0xD0, CHR 0xB8, CHR 0xD1, CHR 0x82, CHR 0xD1, CHR 0x8C]
   @ '' ''
   @ [CHR 0xD0, CHR 0xB2, CHR 0xD0, CHR 0xB8, CHR 0xD0, CHR 0xB4, CHR 0xD0, CHR 0xB5, CHR 0xD0, CHR 0xBE]\<close>

text \<open>\<open>ru_video_unavailable\<close>: the UTF-8 bytes of a camera sign and the Russian for "The video is temporarily unavailable".\<close>

definition ru_video_unavailable :: string where
  \<open>ru_video_unavailable =
     [CHR 0xF0, CHR 0x9F, CHR 0x8E, CHR 0xA5]
   @ '' ''
   @ [CHR 0xD0, CHR 0x92, CHR 0xD0, CHR 0xB8, CHR 0xD0, CHR 0xB4, CHR 0xD0, CHR 0xB5, CHR 0xD0, CHR 0xBE]
   @ '' ''
   @ [CHR 0xD0, CHR 0xB2, CHR 0xD1, CHR 0x80, CHR 0xD0, CHR 0xB5, CHR 0xD0, CHR 0xBC, CHR 0xD0, CHR 0xB5, CHR 0xD0, CHR 0xBD, CHR 0xD0, CHR 0xBD, CHR 0xD0, CHR 0xBE]
   @ '' ''
   @ [CHR 0xD0, CHR 0xBD, CHR 0xD0, CHR 0xB5, CHR 0xD0, CHR 0xB4, CHR 0xD0, CHR 0xBE, CHR 0xD1, CHR 0x81, CHR 0xD1, CHR 0x82, CHR 0xD1, CHR 0x83, CHR 0xD0, CHR 0xBF, CHR 0xD0, CHR 0xBD, CHR 0xD0, CHR 0xBE]\<close>

text \<open>\<open>ru_no_articles\<close>: the UTF-8 bytes of Russian for "No articles".\<close>

definition ru_no_articles :: string where
  \<open>ru_no_articles =
     [CHR 0xD0, CHR 0x9D, CHR 0xD0, CHR 0xB5, CHR 0xD1, CHR 0x82]
   @ '' ''
   @ [CHR 0xD1, CHR 0x81, CHR 0xD1, CHR 0x82, CHR 0xD0, CHR 0xB0, CHR 0xD1, CHR 0x82, CHR 0xD0, CHR 0xB5, CHR 0xD0, CHR 0xB9]\<close>

text \<open>\<open>ru_no_videos\<close>: the UTF-8 bytes of Russian for "No videos".\<close>

definition ru_no_videos :: string where
  \<open>ru_no_videos =
     [CHR 0xD0, CHR 0x9D, CHR 0xD0, CHR 0xB5, CHR 0xD1, CHR 0x82]
   @ '' ''
   @ [CHR 0xD0, CHR 0xB2, CHR 0xD0, CHR 0xB8, CHR 0xD0, CHR 0xB4, CHR 0xD0, CHR 0xB5, CHR 0xD0, CHR 0xBE]\<close>

text \<open>\<open>ru_article\<close>: the UTF-8 bytes of Russian for "article".\<close>

definition ru_article :: string where
  \<open>ru_article =
     [CHR 0xD1, CHR 0x81, CHR 0xD1, CHR 0x82, CHR 0xD0, CHR 0xB0, CHR 0xD1, CHR 0x82, CHR 0xD1, CHR 0x8C, CHR 0xD1, CHR 0x8F]\<close>

text \<open>\<open>ru_channel\<close>: the UTF-8 bytes of Russian for "Channel".\<close>

definition ru_channel :: string where
  \<open>ru_channel =
     [CHR 0xD0, CHR 0x9A, CHR 0xD0, CHR 0xB0, CHR 0xD0, CHR 0xBD, CHR 0xD0, CHR 0xB0, CHR 0xD0, CHR 0xBB]\<close>

text \<open>\<open>ru_all\<close>: the UTF-8 bytes of Russian for "all".\<close>

definition ru_all :: string where
  \<open>ru_all =
     [CHR 0xD0, CHR 0xB2, CHR 0xD1, CHR 0x81, CHR 0xD0, CHR 0xB5]\<close>

text \<open>\<open>sym_arrow\<close>: the UTF-8 bytes of the rightwards arrow U+2192.\<close>

definition sym_arrow :: string where
  \<open>sym_arrow =
     [CHR 0xE2, CHR 0x86, CHR 0x92]\<close>

text \<open>\<open>sym_play\<close>: the UTF-8 bytes of the play triangle U+25B6.\<close>

definition sym_play :: string where
  \<open>sym_play =
     [CHR 0xE2, CHR 0x96, CHR 0xB6]\<close>

text \<open>\<open>sym_bullet\<close>: the UTF-8 bytes of the bullet U+2022.\<close>

definition sym_bullet :: string where
  \<open>sym_bullet =
     [CHR 0xE2, CHR 0x80, CHR 0xA2]\<close>

definition no_articles_html :: string where
  \<open>no_articles_html = ''<div class="loading">'' @ ru_no_articles @ ''</div>''\<close>

definition no_videos_html :: string where
  \<open>no_videos_html = ''<div class="loading">'' @ ru_no_videos @ ''</div>''\<close>

definition articles_error_html :: string where
  \<open>articles_error_html = ''<div class="error">'' @ ru_articles_load_error @ ''</div>''\<close>

definition videos_error_html :: string where
  \<open>videos_error_html = ''<div class="error">'' @ ru_videos_load_error @ ''</div>''\<close>

definition articles_error_htmlD :: string where
  \<open>articles_error_htmlD = ''<div class="error">'' @ ru_articles_failed @ ''</div>''\<close>

definition videos_error_htmlD :: string where
  \<open>videos_error_htmlD = ''<div class="error">'' @ ru_videos_failed @ ''</div>''\<close>

definition articles_log_msg :: string where
  \<open>articles_log_msg = ru_articles_load_error @ '':''\<close>

definition videos_log_msg :: string where
  \<open>videos_log_msg = ru_videos_load_error @ '':''\<close>


section \<open>Data model\<close>

text \<open>
  The items of \<^verbatim>\<open>articles/data.json\<close>. A field holds what the data holds there: a
  string, a number for \<^verbatim>\<open>id\<close>, an array of strings for \<^verbatim>\<open>tags\<close>. Every field may
  be absent from the JSON object, and reads as \<^verbatim>\<open>undefined\<close> then.
\<close>

record article =
  article_id :: "jsnum option"
  article_title :: "string option"
  article_excerpt :: "string option"
  article_image :: "string option"
  article_tag :: "string option"
  article_category :: "string option"

record video =
  video_title :: "string option"
  video_thumbnail :: "string option"
  video_youtubeId :: "string option"
  video_channel :: "string option"
  video_duration :: "string option"
  video_category :: "string option"
  video_tags :: "string list option"

text \<open>
  The state the script reads and writes: its two module-level arrays, the markup of the
  two containers, the \<^verbatim>\<open>src\<close> of the player and the \<^verbatim>\<open>active\<close> class of the modal,
  together with what it shows through \<^verbatim>\<open>alert\<close> and logs through \<^verbatim>\<open>console.error\<close>.
  The elements the script looks up by identifier are taken to exist.
\<close>

record page =
  articlesData :: "article list option"
  videosData :: "video list option"
  articles_container :: string
  videos_container :: string
  iframe_src :: string
  modal_active :: bool
  alerts :: "string list"
  console :: "(string \<times> exn) list"

text \<open>The page when the script starts: both arrays are \<^verbatim>\<open>[]\<close>, the modal is closed.\<close>

definition page0 :: page where
  "page0 = \<lparr>articlesData = Some [], videosData = Some [], articles_container = [],
     videos_container = [], iframe_src = [], modal_active = False, alerts = [], console = []\<rparr>"

text \<open>
  What \<^verbatim>\<open>fetch\<close> and \<^verbatim>\<open>response.json()\<close> give a loader. The fetch is rejected on a
  network error; otherwise it resolves to a response with its \<^verbatim>\<open>ok\<close> flag (false for a
  non-success status) and a body, which is \<^term>\<open>None\<close> when it is not JSON. A JSON document
  is \<^verbatim>\<open>null\<close>, an object with its \<^verbatim>\<open>articles\<close> and \<^verbatim>\<open>videos\<close> keys (each may be
  absent), or another value (a number, a string, a boolean, an array), which has neither
  property.
\<close>

datatype document = DocNull | DocOther | DocObject "article list option" "video list option"

datatype response = Response (ok: bool) (json: "document option")

datatype fetched = Rejected | Resolved response

text \<open>The property reads \<^verbatim>\<open>data.articles\<close> and \<^verbatim>\<open>data.videos\<close>; on \<^verbatim>\<open>null\<close> they throw.\<close>

fun get_articles :: "document \<Rightarrow> exn + article list option" where
  "get_articles DocNull = Inl TypeError"
| "get_articles DocOther = Inr None"
| "get_articles (DocObject a v) = Inr a"

fun get_videos :: "document \<Rightarrow> exn + video list option" where
  "get_videos DocNull = Inl TypeError"
| "get_videos DocOther = Inr None"
| "get_videos (DocObject a v) = Inr v"


section \<open>The script of \<^verbatim>\<open>src/web/script.js\<close>\<close>

subsection \<open>Renderers\<close>

definition articleCard :: "article \<Rightarrow> string" where
  \<open>articleCard article =
     ''\<newline>''
   @ ''        <div class="article-card" data-category="''
   @ interp (article_category article)
   @ ''">\<newline>''
   @ ''            <div class="article-image" style="background-image: url(''
   @ [CHR 0x27]
   @ interp (article_image article)
   @ [CHR 0x27]
   @ '')"></div>\<newline>''
   @ ''            <div class="article-content">\<newline>''
   @ ''                <span class="article-tag">''
   @ interp (article_tag article)
   @ ''</span>\<newline>''
   @ ''                <h3 class="article-title">''
   @ interp (article_title article)
   @ ''</h3>\<newline>''
   @ ''                <p class="article-excerpt">''
   @ interp (article_excerpt article)
   @ ''</p>\<newline>''
   @ ''                <a href="#" class="article-link" onclick="openArticle(''
   @ interp_num (article_id article)
   @ '')">\<newline>''
   @ ''                    ''
   @ ru_read_article
   @ '' <span>''
   @ sym_arrow
   @ ''</span>\<newline>''
   @ ''                </a>\<newline>''
   @ ''            </div>\<newline>''
   @ ''        </div>\<newline>''
   @ ''    ''\<close>

definition renderArticles :: "article list option \<Rightarrow> page \<Rightarrow> exn + page" where
  "renderArticles articles s =
     (case articles of
        None \<Rightarrow> Inl TypeError
      | Some xs \<Rightarrow>
          if length xs = 0 then Inr (s\<lparr>articles_container := no_articles_html\<rparr>)
          else Inr (s\<lparr>articles_container := join [] (map articleCard xs)\<rparr>))"

definition tagSpan :: "string \<Rightarrow> string" where
  \<open>tagSpan tag = ''<span class="video-tag">'' @ tag @ ''</span>''\<close>

text \<open>\<^verbatim>\<open>video.tags.map\<close> throws when the video has no \<^verbatim>\<open>tags\<close>.\<close>

definition videoCard :: "video \<Rightarrow> exn + string" where
  \<open>videoCard video =
     (case video_tags video of
        None \<Rightarrow> Inl TypeError
      | Some tags \<Rightarrow> Inr (
           ''\<newline>''
         @ ''        <div class="video-card" data-category="''
         @ interp (video_category video)
         @ ''">\<newline>''
         @ ''            <div class="video-thumbnail" style="background-image: url(''
         @ [CHR 0x27]
         @ interp (video_thumbnail video)
         @ [CHR 0x27]
         @ '')"\<newline>''
         @ ''                 onclick="openVideo(''
         @ [CHR 0x27]
         @ interp (video_youtubeId video)
         @ [CHR 0x27]
         @ '')">\<newline>''
         @ ''                <div class="play-button">''
         @ sym_play
         @ ''</div>\<newline>''
         @ ''            </div>\<newline>''
         @ ''            <div class="video-info">\<newline>''
         @ ''                <h3 class="video-title">''
         @ interp (video_title video)
         @ ''</h3>\<newline>''
         @ ''                <div class="video-channel">''
         @ interp (video_channel video)
         @ '' ''
         @ sym_bullet
         @ '' ''
         @ interp (video_duration video)
         @ ''</div>\<newline>''
         @ ''                <div class="video-tags">\<newline>''
         @ ''                    ''
         @ join [] (map tagSpan tags)
         @ ''\<newline>''
         @ ''                </div>\<newline>''
         @ ''            </div>\<newline>''
         @ ''        </div>\<newline>''
         @ ''    ''))\<close>

definition renderVideos :: "video list option \<Rightarrow> page \<Rightarrow> exn + page" where
  "renderVideos videos s =
     (case videos of
        None \<Rightarrow> Inl TypeError
      | Some xs \<Rightarrow>
          if length xs = 0 then Inr (s\<lparr>videos_container := no_videos_html\<rparr>)
          else (case map_throw videoCard xs of
                  Inl e \<Rightarrow> Inl e
                | Inr cards \<Rightarrow> Inr (s\<lparr>videos_container := join [] cards\<rparr>)))"

subsection \<open>Filters\<close>

text \<open>
  The array \<^verbatim>\<open>filtered\<close> of a filter: the items the callback of
  \<^verbatim>\<open>Array.prototype.filter\<close> keeps. \<^verbatim>\<open>a.category === category\<close> is false for an item
  with no \<^verbatim>\<open>category\<close>.
\<close>

definition filteredArticles :: "string \<Rightarrow> article list \<Rightarrow> article list" where
  "filteredArticles category xs = filter (\<lambda>a. article_category a = Some category) xs"

definition filteredVideos :: "string \<Rightarrow> video list \<Rightarrow> video list" where
  "filteredVideos category xs = filter (\<lambda>v. video_category v = Some category) xs"

text \<open>On an array that is \<^verbatim>\<open>undefined\<close> the call of \<^verbatim>\<open>filter\<close> throws.\<close>

definition filterArticles :: "string \<Rightarrow> page \<Rightarrow> exn + page" where
  "filterArticles category s =
     (if category = ''all'' then renderArticles (articlesData s) s
      else (case articlesData s of
              None \<Rightarrow> Inl TypeError
            | Some xs \<Rightarrow> renderArticles (Some (filteredArticles category xs)) s))"

definition filterVideos :: "string \<Rightarrow> page \<Rightarrow> exn + page" where
  "filterVideos category s =
     (if category = ''all'' then renderVideos (videosData s) s
      else (case videosData s of
              None \<Rightarrow> Inl TypeError
            | Some xs \<Rightarrow> renderVideos (Some (filteredVideos category xs)) s))"

subsection \<open>Modal\<close>

definition openVideo :: "string \<Rightarrow> page \<Rightarrow> page" where
  "openVideo youtubeId s =
     s\<lparr>iframe_src := ''https://www.youtube.com/embed/'' @ youtubeId @ ''?autoplay=1'',
       modal_active := True\<rparr>"

definition closeModal :: "page \<Rightarrow> page" where
  "closeModal s = s\<lparr>iframe_src := [], modal_active := False\<rparr>"

subsection \<open>Loaders\<close>

text \<open>
  A loader runs after its fetch has settled; \<open>f\<close> is what the fetch gave. The
  \<^verbatim>\<open>catch\<close> block sees the state at the throw: the array has already been assigned when
  the renderer throws.
\<close>

definition loadArticles_catch :: "exn \<Rightarrow> page \<Rightarrow> page" where
  "loadArticles_catch error s =
     s\<lparr>console := console s @ [(articles_log_msg, error)],
       articles_container := articles_error_html\<rparr>"

definition loadArticles :: "fetched \<Rightarrow> page \<Rightarrow> page" where
  "loadArticles f s =
     (case f of
        Rejected \<Rightarrow> loadArticles_catch NetworkError s
      | Resolved response \<Rightarrow>
          (case json response of
             None \<Rightarrow> loadArticles_catch SyntaxError s
           | Some data \<Rightarrow>
               (case get_articles data of
                  Inl e \<Rightarrow> loadArticles_catch e s
                | Inr articles \<Rightarrow>
                    let s1 = s\<lparr>articlesData := articles\<rparr> in
                    (case renderArticles (articlesData s1) s1 of
                       Inl e \<Rightarrow> loadArticles_catch e s1
                     | Inr s2 \<Rightarrow> s2))))"

definition loadVideos_catch :: "exn \<Rightarrow> page \<Rightarrow> page" where
  "loadVideos_catch error s =
     s\<lparr>console := console s @ [(videos_log_msg, error)],
       videos_container := videos_error_html\<rparr>"

definition loadVideos :: "fetched \<Rightarrow> page \<Rightarrow> page" where
  "loadVideos f s =
     (case f of
        Rejected \<Rightarrow> loadVideos_catch NetworkError s
      | Resolved response \<Rightarrow>
          (case json response of
             None \<Rightarrow> loadVideos_catch SyntaxError s
           | Some data \<Rightarrow>
               (case get_videos data of
                  Inl e \<Rightarrow> loadVideos_catch e s
                | Inr videos \<Rightarrow>
                    let s1 = s\<lparr>videosData := videos\<rparr> in
                    (case renderVideos (videosData s1) s1 of
                       Inl e \<Rightarrow> loadVideos_catch e s1
                     | Inr s2 \<Rightarrow> s2))))"


section \<open>The defensive script of \<^verbatim>\<open>src/unnamed/part_000\<close>\<close>

subsection \<open>Renderers\<close>

definition articleCardD :: "article \<Rightarrow> string" where
  \<open>articleCardD article =
     ''\<newline>''
   @ ''        <div class="article-card" data-category="''
   @ or_else (article_category article) ru_all
   @ ''">\<newline>''
   @ ''            <div class="article-image" style="background-image: url(''
   @ [CHR 0x27]
   @ or_else (article_image article) ''https://via.placeholder.com/300x200''
   @ [CHR 0x27]
   @ '')"></div>\<newline>''
   @ ''            <div class="article-content">\<newline>''
   @ ''                <span class="article-tag">''
   @ or_else (article_tag article) ru_article
   @ ''</span>\<newline>''
   @ ''                <h3 class="article-title">''
   @ interp (article_title article)
   @ ''</h3>\<newline>''
   @ ''                <p class="article-excerpt">''
   @ or_else (article_excerpt article) []
   @ ''</p>\<newline>''
   @ ''                <a href="#" class="article-link" onclick="openArticle(''
   @ interp_num (article_id article)
   @ '')">\<newline>''
   @ ''                    ''
   @ ru_read_article
   @ '' <span>''
   @ sym_arrow
   @ ''</span>\<newline>''
   @ ''                </a>\<newline>''
   @ ''            </div>\<newline>''
   @ ''        </div>\<newline>''
   @ ''    ''\<close>

definition renderArticlesD :: "article list option \<Rightarrow> page \<Rightarrow> page" where
  "renderArticlesD articles s =
     (case articles of
        None \<Rightarrow> s\<lparr>articles_container := no_articles_html\<rparr>
      | Some xs \<Rightarrow>
          if length xs = 0 then s\<lparr>articles_container := no_articles_html\<rparr>
          else s\<lparr>articles_container := join [] (map articleCardD xs)\<rparr>)"

definition videoCardD :: "video \<Rightarrow> string" where
  \<open>videoCardD video =
     ''\<newline>''
   @ ''        <div class="video-card" data-category="''
   @ or_else (video_category video) ru_all
   @ ''">\<newline>''
   @ ''            <div class="video-thumbnail" style="background-image: url(''
   @ [CHR 0x27]
   @ or_else (video_thumbnail video) ''https://via.placeholder.com/300x180''
   @ [CHR 0x27]
   @ '')"\<newline>''
   @ ''                 onclick="openVideo(''
   @ [CHR 0x27]
   @ or_else (video_youtubeId video) []
   @ [CHR 0x27]
   @ '')">\<newline>''
   @ ''                <div class="play-button">''
   @ sym_play
   @ ''</div>\<newline>''
   @ ''            </div>\<newline>''
   @ ''            <div class="video-info">\<newline>''
   @ ''                <h3 class="video-title">''
   @ interp (video_title video)
   @ ''</h3>\<newline>''
   @ ''                <div class="video-channel">''
   @ or_else (video_channel video) ru_channel
   @ '' ''
   @ sym_bullet
   @ '' ''
   @ or_else (video_duration video) ''00:00''
   @ ''</div>\<newline>''
   @ ''                <div class="video-tags">\<newline>''
   @ ''                    ''
   @ join [] (map tagSpan (array_or_empty (video_tags video)))
   @ ''\<newline>''
   @ ''                </div>\<newline>''
   @ ''            </div>\<newline>''
   @ ''        </div>\<newline>''
   @ ''    ''\<close>

definition renderVideosD :: "video list option \<Rightarrow> page \<Rightarrow> page" where
  "renderVideosD videos s =
     (case videos of
        None \<Rightarrow> s\<lparr>videos_container := no_videos_html\<rparr>
      | Some xs \<Rightarrow>
          if length xs = 0 then s\<lparr>videos_container := no_videos_html\<rparr>
          else s\<lparr>videos_container := join [] (map videoCardD xs)\<rparr>)"

subsection \<open>Filters\<close>

text \<open>
  The array \<^verbatim>\<open>filtered\<close>: the callback compares the lower-cased category of the item,
  the empty string when the item has none, with the target as it is given.
\<close>

definition filteredArticlesD ::
  "(string \<Rightarrow> string) \<Rightarrow> string \<Rightarrow> article list \<Rightarrow> article list" where
  "filteredArticlesD toLowerCase category xs =
     filter (\<lambda>a. toLowerCase (or_else (article_category a) []) = category) xs"

definition filteredVideosD ::
  "(string \<Rightarrow> string) \<Rightarrow> string \<Rightarrow> video list \<Rightarrow> video list" where
  "filteredVideosD toLowerCase category xs =
     filter (\<lambda>v. toLowerCase (or_else (video_category v) []) = category) xs"

text \<open>The filters return at once, rendering nothing, while the array is empty.\<close>

definition filterArticlesD :: "(string \<Rightarrow> string) \<Rightarrow> string \<Rightarrow> page \<Rightarrow> page" where
  "filterArticlesD toLowerCase category s =
     (case articlesData s of
        None \<Rightarrow> s
      | Some xs \<Rightarrow>
          if length xs = 0 then s
          else if category = ''all'' then renderArticlesD (articlesData s) s
          else renderArticlesD (Some (filteredArticlesD toLowerCase category xs)) s)"

definition filterVideosD :: "(string \<Rightarrow> string) \<Rightarrow> string \<Rightarrow> page \<Rightarrow> page" where
  "filterVideosD toLowerCase category s =
     (case videosData s of
        None \<Rightarrow> s
      | Some xs \<Rightarrow>
          if length xs = 0 then s
          else if category = ''all'' then renderVideosD (videosData s) s
          else renderVideosD (Some (filteredVideosD toLowerCase category xs)) s)"

subsection \<open>Modal\<close>

definition openVideoD :: "string \<Rightarrow> page \<Rightarrow> page" where
  "openVideoD youtubeId s =
     (if youtubeId = [] then s\<lparr>alerts := alerts s @ [ru_video_unavailable]\<rparr>
      else s\<lparr>iframe_src := ''https://www.youtube.com/embed/'' @ youtubeId @ ''?autoplay=1'',
             modal_active := True\<rparr>)"

definition closeModalD :: "page \<Rightarrow> page" where
  "closeModalD s = s\<lparr>iframe_src := [], modal_active := False\<rparr>"

subsection \<open>Loaders\<close>

definition loadArticlesD_catch :: "exn \<Rightarrow> page \<Rightarrow> page" where
  "loadArticlesD_catch error s =
     s\<lparr>console := console s @ [(articles_log_msg, error)],
       articles_container := articles_error_htmlD\<rparr>"

definition loadArticlesD :: "fetched \<Rightarrow> page \<Rightarrow> page" where
  "loadArticlesD f s =
     (case f of
        Rejected \<Rightarrow> loadArticlesD_catch NetworkError s
      | Resolved response \<Rightarrow>
          if \<not> ok response then loadArticlesD_catch (Error ru_load_error) s
          else
            (case json response of
               None \<Rightarrow> loadArticlesD_catch SyntaxError s
             | Some data \<Rightarrow>
                 (case get_articles data of
                    Inl e \<Rightarrow> loadArticlesD_catch e s
                  | Inr articles \<Rightarrow>
                      let s1 = s\<lparr>articlesData := Some (array_or_empty articles)\<rparr>
                      in renderArticlesD (articlesData s1) s1)))"

definition loadVideosD_catch :: "exn \<Rightarrow> page \<Rightarrow> page" where
  "loadVideosD_catch error s =
     s\<lparr>console := console s @ [(videos_log_msg, error)],
       videos_container := videos_error_htmlD\<rparr>"

definition loadVideosD :: "fetched \<Rightarrow> page \<Rightarrow> page" where
  "loadVideosD f s =
     (case f of
        Rejected \<Rightarrow> loadVideosD_catch NetworkError s
      | Resolved response \<Rightarrow>
          if \<not> ok response then loadVideosD_catch (Error ru_load_error) s
          else
            (case json response of
               None \<Rightarrow> loadVideosD_catch SyntaxError s
             | Some data \<Rightarrow>
                 (case get_videos data of
                    Inl e \<Rightarrow> loadVideosD_catch e s
                  | Inr videos \<Rightarrow>
                      let s1 = s\<lparr>videosData := Some (array_or_empty videos)\<rparr>
                      in renderVideosD (videosData s1) s1)))"

subsection \<open>Events after the page has loaded\<close>

text \<open>
  The handlers the script registers: a click on a filter button calls the filter with the
  button's \<^verbatim>\<open>data-filter\<close> (or \<^verbatim>\<open>data-filter-video\<close>) value, a click on a thumbnail
  calls \<^verbatim>\<open>openVideo\<close>, a click on the close control or on the backdrop calls
  \<^verbatim>\<open>closeModal\<close>.
\<close>

datatype click =
    FilterArticles string
  | FilterVideos string
  | OpenVideo string
  | CloseModal

fun clickD :: "(string \<Rightarrow> string) \<Rightarrow> click \<Rightarrow> page \<Rightarrow> page" where
  "clickD toLowerCase (FilterArticles c) s = filterArticlesD toLowerCase c s"
| "clickD toLowerCase (FilterVideos c) s = filterVideosD toLowerCase c s"
| "clickD toLowerCase (OpenVideo y) s = openVideoD y s"
| "clickD toLowerCase CloseModal s = closeModalD s"

text \<open>
  Each loader is called once, when the page has loaded. So what can happen once the
  articles' loader has settled is a click or the settling of the videos' loader
  (\<open>event\<close>), and once the videos' loader has settled a click or the settling of the
  articles' loader (\<open>vevent\<close>).
\<close>

datatype event = Click click | VideosFetched fetched

fun stepD :: "(string \<Rightarrow> string) \<Rightarrow> event \<Rightarrow> page \<Rightarrow> page" where
  "stepD toLowerCase (Click c) s = clickD toLowerCase c s"
| "stepD toLowerCase (VideosFetched f) s = loadVideosD f s"

fun runD :: "(string \<Rightarrow> string) \<Rightarrow> event list \<Rightarrow> page \<Rightarrow> page" where
  "runD toLowerCase [] s = s"
| "runD toLowerCase (e # es) s = runD toLowerCase es (stepD toLowerCase e s)"

datatype vevent = VClick click | ArticlesFetched fetched

fun vstepD :: "(string \<Rightarrow> string) \<Rightarrow> vevent \<Rightarrow> page \<Rightarrow> page" where
  "vstepD toLowerCase (VClick c) s = clickD toLowerCase c s"
| "vstepD toLowerCase (ArticlesFetched f) s = loadArticlesD f s"

fun vrunD :: "(string \<Rightarrow> string) \<Rightarrow> vevent list \<Rightarrow> page \<Rightarrow> page" where
  "vrunD toLowerCase [] s = s"
| "vrunD toLowerCase (e # es) s = vrunD toLowerCase es (vstepD toLowerCase e s)"


section \<open>Sample data\<close>

text \<open>Items on which the theorems below are evaluated.\<close>


definition art_sleep :: article where
  "art_sleep = \<lparr>article_id = Some ''1'', article_title = Some ''Rest'',
     article_excerpt = Some ''How to rest'', article_image = Some ''rest.png'',
     article_tag = Some ''rest'', article_category = Some ''sleep''\<rparr>"

definition art_Sleep :: article where
  "art_Sleep = \<lparr>article_id = Some ''2'', article_title = Some ''Nap'',
     article_excerpt = Some ''Short naps'', article_image = Some ''nap.png'',
     article_tag = Some ''nap'', article_category = Some ''Sleep''\<rparr>"

definition art_bare :: article where
  "art_bare = \<lparr>article_id = None, article_title = None, article_excerpt = None,
     article_image = None, article_tag = None, article_category = None\<rparr>"

definition vid_calm :: video where
  "vid_calm = \<lparr>video_title = Some ''Calm'', video_thumbnail = Some ''calm.png'',
     video_youtubeId = Some ''abc123'', video_channel = Some ''Care'',
     video_duration = Some ''03:20'', video_category = Some ''sleep'',
     video_tags = Some [''calm'', ''night'']\<rparr>"

definition vid_bare :: video where
  "vid_bare = \<lparr>video_title = None, video_thumbnail = None, video_youtubeId = None,
     video_channel = None, video_duration = None, video_category = None,
     video_tags = Some []\<rparr>"

definition vid_no_tags :: video where
  "vid_no_tags = \<lparr>video_title = Some ''Calm'', video_thumbnail = Some ''calm.png'',
     video_youtubeId = Some ''abc123'', video_channel = Some ''Care'',
     video_duration = Some ''03:20'', video_category = Some ''sleep'',
     video_tags = None\<rparr>"


section \<open>Helper lemmas\<close>


lemma join_empty_sep: "join [] xs = concat xs"
  by (induction "[] :: string" xs rule: join.induct) simp_all

lemma renderArticles_Some:
  "renderArticles (Some xs) s =
     Inr (s\<lparr>articles_container :=
            (if xs = [] then no_articles_html else concat (map articleCard xs))\<rparr>)"
  by (simp add: renderArticles_def join_empty_sep)

lemma renderArticlesD_Some:
  "renderArticlesD (Some xs) s =
     s\<lparr>articles_container :=
         (if xs = [] then no_articles_html else concat (map articleCardD xs))\<rparr>"
  by (simp add: renderArticlesD_def join_empty_sep)

lemma renderVideosD_Some:
  "renderVideosD (Some ys) s =
     s\<lparr>videos_container :=
         (if ys = [] then no_videos_html else concat (map videoCardD ys))\<rparr>"
  by (simp add: renderVideosD_def join_empty_sep)

lemma videoCard_throws: "videoCard v = Inl e \<longleftrightarrow> e = TypeError \<and> video_tags v = None"
  by (auto simp: videoCard_def split: option.splits)

lemma map_throw_Inl:
  "map_throw videoCard ys = Inl e \<longleftrightarrow> e = TypeError \<and> (\<exists>v\<in>set ys. video_tags v = None)"
proof (induction ys)
  case Nil
  show ?case by simp
next
  case (Cons y ys)
  show ?case
  proof (cases "videoCard y")
    case (Inl e')
    then show ?thesis using videoCard_throws [of y e'] by auto
  next
    case (Inr c)
    then have "video_tags y \<noteq> None"
      by (auto simp: videoCard_def split: option.splits)
    with Inr Cons show ?thesis by (auto split: sum.splits)
  qed
qed

lemma renderVideos_throws:
  "renderVideos (Some ys) s = Inl e \<longleftrightarrow> e = TypeError \<and> (\<exists>v\<in>set ys. video_tags v = None)"
proof (cases "ys = []")
  case True
  then show ?thesis by (simp add: renderVideos_def)
next
  case False
  then show ?thesis
    using map_throw_Inl [of ys e] by (auto simp: renderVideos_def split: sum.splits)
qed

lemma map_throw_videoCard:
  "(\<forall>v\<in>set ys. video_tags v \<noteq> None) \<Longrightarrow>
   map_throw videoCard ys = Inr (map (\<lambda>v. projr (videoCard v)) ys)"
proof (induction ys)
  case Nil
  show ?case by simp
next
  case (Cons y ys)
  then obtain tags where "video_tags y = Some tags" by auto
  then obtain c where "videoCard y = Inr c" by (simp add: videoCard_def)
  with Cons show ?case by simp
qed

lemma ascii_toLowerCase_Sleep: "ascii_toLowerCase ''Sleep'' = ''sleep''"
  by code_simp

lemma ascii_toLowerCase_sleep: "ascii_toLowerCase ''sleep'' = ''sleep''"
  by code_simp

lemma ascii_toLowerCase_empty: "ascii_toLowerCase [] = []"
  by (simp add: ascii_toLowerCase_def)

lemma sample_categories:
  "article_category art_sleep = Some ''sleep''"
  "article_category art_Sleep = Some ''Sleep''"
  "article_category art_bare = None"
  "video_category vid_calm = Some ''sleep''"
  by (simp_all add: art_sleep_def art_Sleep_def art_bare_def vid_calm_def)

lemma interp_None: "interp None = ''undefined''" "interp_num None = ''undefined''"
  by (simp_all add: interp_def interp_num_def)

text \<open>Looking for a text in a card: over an unknown piece, and character by character.\<close>

lemma sublist_skip: "sublist m ys \<Longrightarrow> sublist m (xs @ ys)"
  by (metis sublist_append)

lemma sublist_step: "sublist (x # xs) (y # ys) \<longleftrightarrow> prefix (x # xs) (y # ys) \<or> sublist (x # xs) ys"
  by (rule sublist_Cons_right)


section \<open>The modal\<close>

text \<open>
  C8. Whatever the modal's state, open with any player source or closed already,
  \<^verbatim>\<open>closeModal\<close> leaves the player source empty and the modal not active, in both
  versions of the script.
\<close>

theorem closeModal_clears:
  "iframe_src (closeModal s) = [] \<and> modal_active (closeModal s) = False
   \<and> iframe_src (closeModalD s) = [] \<and> modal_active (closeModalD s) = False"
  by (simp add: closeModal_def closeModalD_def)


text \<open>
  C9. \<^verbatim>\<open>openVideo\<close> with the identifier \<open>abc123\<close> sets the player source to
  \<^verbatim>\<open>https://www.youtube.com/embed/abc123?autoplay=1\<close> and marks the modal open. In general
  the source is the fixed prefix, the identifier as it is given, and the fixed suffix:
  nothing is escaped. The script of \<^verbatim>\<open>src/web/script.js\<close> does so for every identifier,
  the defensive one for every identifier that is not empty.
\<close>

theorem openVideo_embed_url:
  "iframe_src (openVideo ''abc123'' s) = ''https://www.youtube.com/embed/abc123?autoplay=1''
   \<and> modal_active (openVideo ''abc123'' s) = True
   \<and> iframe_src (openVideoD ''abc123'' s) = ''https://www.youtube.com/embed/abc123?autoplay=1''
   \<and> modal_active (openVideoD ''abc123'' s) = True
   \<and> iframe_src (openVideo y s) = ''https://www.youtube.com/embed/'' @ y @ ''?autoplay=1''
   \<and> modal_active (openVideo y s) = True
   \<and> (y \<noteq> [] \<longrightarrow>
        iframe_src (openVideoD y s) = ''https://www.youtube.com/embed/'' @ y @ ''?autoplay=1''
        \<and> modal_active (openVideoD y s) = True)"
  by (simp add: openVideo_def openVideoD_def)

theorem openVideo_embed_url_witness:
  \<open>''a b"&<'' \<noteq> []
   \<and> iframe_src (openVideoD ''a b"&<'' page0) = ''https://www.youtube.com/embed/a b"&<?autoplay=1''
   \<and> modal_active (openVideoD ''a b"&<'' page0) = True\<close>
  using openVideo_embed_url [of page0 \<open>''a b"&<''\<close>] by simp

text \<open>
  C3. The claim fails on the script of \<^verbatim>\<open>src/web/script.js\<close>, whose \<^verbatim>\<open>openVideo\<close> has
  no guard: called with the empty identifier on the closed modal of the starting page, it
  marks the modal active, changes the player source and shows no notice.
\<close>

theorem openVideo_empty_counterexample:
  "modal_active page0 = False
   \<and> modal_active (openVideo [] page0) = True
   \<and> iframe_src (openVideo [] page0) \<noteq> iframe_src page0
   \<and> alerts (openVideo [] page0) = []"
  by (simp add: openVideo_def page0_def)

text \<open>
  C3, amended. In the defensive script \<^verbatim>\<open>openVideo\<close> with the empty identifier shows
  the notice and changes nothing else: the modal keeps its state (a closed modal stays
  closed, an open one stays open) and the player keeps its source. In the script of
  \<^verbatim>\<open>src/web/script.js\<close> the same call shows no notice, sets the player source to the embed
  address of the empty identifier and marks the modal active.
\<close>

theorem openVideo_empty:
  "openVideoD [] s = s\<lparr>alerts := alerts s @ [ru_video_unavailable]\<rparr>
   \<and> modal_active (openVideoD [] s) = modal_active s
   \<and> iframe_src (openVideoD [] s) = iframe_src s
   \<and> openVideo [] s =
       s\<lparr>iframe_src := ''https://www.youtube.com/embed/?autoplay=1'', modal_active := True\<rparr>
   \<and> alerts (openVideo [] s) = alerts s"
  by (simp add: openVideo_def openVideoD_def)


section \<open>Renderers\<close>

text \<open>
  C6. A renderer given a non-empty sequence of items writes the cards of the items, one
  for each item and in the order of the sequence, and nothing else; given the empty
  sequence it writes the placeholder message alone. Each card opens with the card element
  of its kind. This holds for \<^verbatim>\<open>renderArticles\<close> in both scripts, for the defensive
  \<^verbatim>\<open>renderVideos\<close>, and for \<^verbatim>\<open>renderVideos\<close> of \<^verbatim>\<open>src/web/script.js\<close> on videos that
  have their \<^verbatim>\<open>tags\<close>, as the data model gives them.
\<close>

theorem render_one_card_per_item:
  \<open>renderArticles (Some xs) s =
     Inr (s\<lparr>articles_container :=
            (if xs = [] then no_articles_html else concat (map articleCard xs))\<rparr>)
   \<and> renderArticlesD (Some xs) s =
       s\<lparr>articles_container :=
           (if xs = [] then no_articles_html else concat (map articleCardD xs))\<rparr>
   \<and> renderVideosD (Some ys) s =
       s\<lparr>videos_container :=
           (if ys = [] then no_videos_html else concat (map videoCardD ys))\<rparr>
   \<and> ((\<forall>v\<in>set ys. video_tags v \<noteq> None) \<longrightarrow>
        renderVideos (Some ys) s =
          Inr (s\<lparr>videos_container :=
                 (if ys = [] then no_videos_html
                  else concat (map (\<lambda>v. projr (videoCard v)) ys))\<rparr>))
   \<and> prefix ''\<newline>        <div class="article-card" '' (articleCard a)
   \<and> prefix ''\<newline>        <div class="article-card" '' (articleCardD a)
   \<and> prefix ''\<newline>        <div class="video-card" '' (videoCardD v)
   \<and> (video_tags v \<noteq> None \<longrightarrow>
        prefix ''\<newline>        <div class="video-card" '' (projr (videoCard v)))\<close>
proof -
  have web: "(\<forall>v\<in>set ys. video_tags v \<noteq> None) \<longrightarrow>
        renderVideos (Some ys) s =
          Inr (s\<lparr>videos_container :=
                 (if ys = [] then no_videos_html
                  else concat (map (\<lambda>v. projr (videoCard v)) ys))\<rparr>)"
    using map_throw_videoCard [of ys] by (simp add: renderVideos_def join_empty_sep)
  have card: \<open>video_tags v \<noteq> None \<longrightarrow>
        prefix ''\<newline>        <div class="video-card" '' (projr (videoCard v))\<close>
    by (auto simp: videoCard_def)
  have rest: \<open>prefix ''\<newline>        <div class="article-card" '' (articleCard a)
   \<and> prefix ''\<newline>        <div class="article-card" '' (articleCardD a)
   \<and> prefix ''\<newline>        <div class="video-card" '' (videoCardD v)\<close>
    by (simp add: articleCard_def articleCardD_def videoCardD_def)
  from web card rest show ?thesis
    by (simp add: renderArticles_Some renderArticlesD_Some renderVideosD_Some)
qed

theorem render_one_card_per_item_witness:
  "renderArticles (Some [art_Sleep, art_bare]) page0 =
     Inr (page0\<lparr>articles_container := articleCard art_Sleep @ articleCard art_bare\<rparr>)
   \<and> renderArticlesD (Some [art_Sleep, art_bare]) page0 =
       page0\<lparr>articles_container := articleCardD art_Sleep @ articleCardD art_bare\<rparr>
   \<and> renderVideosD (Some [vid_no_tags, vid_calm]) page0 =
       page0\<lparr>videos_container := videoCardD vid_no_tags @ videoCardD vid_calm\<rparr>
   \<and> video_tags vid_calm \<noteq> None
   \<and> renderVideos (Some [vid_calm, vid_calm]) page0 =
       Inr (page0\<lparr>videos_container := projr (videoCard vid_calm) @ projr (videoCard vid_calm)\<rparr>)
   \<and> renderArticles (Some []) page0 = Inr (page0\<lparr>articles_container := no_articles_html\<rparr>)
   \<and> renderArticlesD (Some []) page0 = page0\<lparr>articles_container := no_articles_html\<rparr>
   \<and> renderVideosD (Some []) page0 = page0\<lparr>videos_container := no_videos_html\<rparr>
   \<and> renderVideos (Some []) page0 = Inr (page0\<lparr>videos_container := no_videos_html\<rparr>)"
proof -
  have t: "video_tags vid_calm \<noteq> None" by (simp add: vid_calm_def)
  have 1: "renderArticles (Some [art_Sleep, art_bare]) page0 =
     Inr (page0\<lparr>articles_container := articleCard art_Sleep @ articleCard art_bare\<rparr>)
   \<and> renderArticlesD (Some [art_Sleep, art_bare]) page0 =
       page0\<lparr>articles_container := articleCardD art_Sleep @ articleCardD art_bare\<rparr>
   \<and> renderVideosD (Some [vid_no_tags, vid_calm]) page0 =
       page0\<lparr>videos_container := videoCardD vid_no_tags @ videoCardD vid_calm\<rparr>"
    using render_one_card_per_item [of "[art_Sleep, art_bare]" page0 "[vid_no_tags, vid_calm]"]
    by simp
  have 2: "renderVideos (Some [vid_calm, vid_calm]) page0 =
       Inr (page0\<lparr>videos_container := projr (videoCard vid_calm) @ projr (videoCard vid_calm)\<rparr>)"
    using render_one_card_per_item [of "[]" page0 "[vid_calm, vid_calm]"] t
    by simp
  have 3: "renderArticles (Some []) page0 = Inr (page0\<lparr>articles_container := no_articles_html\<rparr>)
   \<and> renderArticlesD (Some []) page0 = page0\<lparr>articles_container := no_articles_html\<rparr>
   \<and> renderVideosD (Some []) page0 = page0\<lparr>videos_container := no_videos_html\<rparr>
   \<and> renderVideos (Some []) page0 = Inr (page0\<lparr>videos_container := no_videos_html\<rparr>)"
    using render_one_card_per_item [of "[]" page0 "[]"]
    by simp
  from t 1 2 3 show ?thesis by simp
qed

text \<open>
  C5. The claim fails for \<^verbatim>\<open>renderVideos\<close> of \<^verbatim>\<open>src/web/script.js\<close>: a video that lacks
  \<^verbatim>\<open>tags\<close>, and nothing else, makes the renderer throw a \<^verbatim>\<open>TypeError\<close>, and the
  container is not written.
\<close>

theorem renderVideos_missing_tags_counterexample:
  "video_tags vid_no_tags = None
   \<and> renderVideos (Some [vid_no_tags]) page0 = Inl TypeError"
  by (simp add: renderVideos_def videoCard_def vid_no_tags_def)

lemma articleCard_undefined:
  \<open>article_category a = None \<longrightarrow>
     prefix ''\<newline>        <div class="article-card" data-category="undefined">'' (articleCard a)\<close>
  \<open>article_image a = None \<longrightarrow>
     sublist (''style="background-image: url('' @ [CHR 0x27] @ ''undefined'' @ [CHR 0x27] @ '')">'')
       (articleCard a)\<close>
  \<open>article_tag a = None \<longrightarrow>
     sublist ''<span class="article-tag">undefined</span>'' (articleCard a)\<close>
  \<open>article_title a = None \<longrightarrow>
     sublist ''<h3 class="article-title">undefined</h3>'' (articleCard a)\<close>
  \<open>article_excerpt a = None \<longrightarrow>
     sublist ''<p class="article-excerpt">undefined</p>'' (articleCard a)\<close>
  \<open>article_id a = None \<longrightarrow>
     sublist ''onclick="openArticle(undefined)">'' (articleCard a)\<close>
  by (simp_all add: articleCard_def interp_None sublist_skip sublist_step)

lemma videoCard_undefined:
  assumes "video_tags v = Some tags"
  shows
  \<open>video_category v = None \<longrightarrow>
     prefix ''\<newline>        <div class="video-card" data-category="undefined">''
       (projr (videoCard v))\<close>
  \<open>video_thumbnail v = None \<longrightarrow>
     sublist (''style="background-image: url('' @ [CHR 0x27] @ ''undefined'' @ [CHR 0x27] @ '')"'')
       (projr (videoCard v))\<close>
  \<open>video_youtubeId v = None \<longrightarrow>
     sublist (''onclick="openVideo('' @ [CHR 0x27] @ ''undefined'' @ [CHR 0x27] @ '')">'')
       (projr (videoCard v))\<close>
  \<open>video_title v = None \<longrightarrow>
     sublist ''<h3 class="video-title">undefined</h3>'' (projr (videoCard v))\<close>
  \<open>video_channel v = None \<longrightarrow>
     sublist (''<div class="video-channel">undefined '' @ sym_bullet) (projr (videoCard v))\<close>
  \<open>video_duration v = None \<longrightarrow>
     sublist (sym_bullet @ '' undefined</div>'') (projr (videoCard v))\<close>
  using assms
  by (simp_all add: videoCard_def interp_None sublist_skip sublist_step sym_bullet_def)

lemma sample_bare_fields:
  "article_id art_bare = None" "article_title art_bare = None"
  "article_excerpt art_bare = None" "article_image art_bare = None"
  "article_tag art_bare = None"
  "video_title vid_bare = None" "video_thumbnail vid_bare = None"
  "video_youtubeId vid_bare = None" "video_channel vid_bare = None"
  "video_duration vid_bare = None" "video_category vid_bare = None"
  "video_tags vid_bare = Some []"
  by (simp_all add: art_bare_def vid_bare_def)

text \<open>
  C5, amended. In the script of \<^verbatim>\<open>src/web/script.js\<close>, \<^verbatim>\<open>renderArticles\<close> returns
  without throwing on every sequence of articles, whichever fields they lack, and writes
  their cards; in the card of an article each field that is absent (category, image, tag,
  title, excerpt, id) is rendered as the text \<open>undefined\<close> in its place. \<^verbatim>\<open>renderVideos\<close>
  returns without throwing exactly when every video of the sequence has its \<^verbatim>\<open>tags\<close>, and
  then writes the cards, each absent field of a video (category, thumbnail, identifier,
  title, channel, duration) rendered as \<open>undefined\<close> in its place; it throws a
  \<^verbatim>\<open>TypeError\<close>, and writes nothing, as soon as one video lacks its \<^verbatim>\<open>tags\<close>.
\<close>

theorem renderers_on_missing_fields:
  \<open>renderArticles (Some xs) s =
     Inr (s\<lparr>articles_container :=
            (if xs = [] then no_articles_html else concat (map articleCard xs))\<rparr>)
   \<and> (article_category a = None \<longrightarrow>
        prefix ''\<newline>        <div class="article-card" data-category="undefined">'' (articleCard a))
   \<and> (article_image a = None \<longrightarrow>
        sublist (''style="background-image: url('' @ [CHR 0x27] @ ''undefined'' @ [CHR 0x27] @ '')">'')
          (articleCard a))
   \<and> (article_tag a = None \<longrightarrow>
        sublist ''<span class="article-tag">undefined</span>'' (articleCard a))
   \<and> (article_title a = None \<longrightarrow>
        sublist ''<h3 class="article-title">undefined</h3>'' (articleCard a))
   \<and> (article_excerpt a = None \<longrightarrow>
        sublist ''<p class="article-excerpt">undefined</p>'' (articleCard a))
   \<and> (article_id a = None \<longrightarrow>
        sublist ''onclick="openArticle(undefined)">'' (articleCard a))
   \<and> ((\<exists>s'. renderVideos (Some ys) s = Inr s') \<longleftrightarrow> (\<forall>v\<in>set ys. video_tags v \<noteq> None))
   \<and> (renderVideos (Some ys) s = Inl TypeError \<longleftrightarrow> (\<exists>v\<in>set ys. video_tags v = None))
   \<and> ((\<forall>v\<in>set ys. video_tags v \<noteq> None) \<longrightarrow>
        renderVideos (Some ys) s =
          Inr (s\<lparr>videos_container :=
                 (if ys = [] then no_videos_html
                  else concat (map (\<lambda>v. projr (videoCard v)) ys))\<rparr>))
   \<and> (video_tags v \<noteq> None \<and> video_category v = None \<longrightarrow>
        prefix ''\<newline>        <div class="video-card" data-category="undefined">''
          (projr (videoCard v)))
   \<and> (video_tags v \<noteq> None \<and> video_thumbnail v = None \<longrightarrow>
        sublist (''style="background-image: url('' @ [CHR 0x27] @ ''undefined'' @ [CHR 0x27] @ '')"'')
          (projr (videoCard v)))
   \<and> (video_tags v \<noteq> None \<and> video_youtubeId v = None \<longrightarrow>
        sublist (''onclick="openVideo('' @ [CHR 0x27] @ ''undefined'' @ [CHR 0x27] @ '')">'')
          (projr (videoCard v)))
   \<and> (video_tags v \<noteq> None \<and> video_title v = None \<longrightarrow>
        sublist ''<h3 class="video-title">undefined</h3>'' (projr (videoCard v)))
   \<and> (video_tags v \<noteq> None \<and> video_channel v = None \<longrightarrow>
        sublist (''<div class="video-channel">undefined '' @ sym_bullet) (projr (videoCard v)))
   \<and> (video_tags v \<noteq> None \<and> video_duration v = None \<longrightarrow>
        sublist (sym_bullet @ '' undefined</div>'') (projr (videoCard v)))\<close>
proof -
  have 4: "renderVideos (Some ys) s = Inl TypeError \<longleftrightarrow> (\<exists>v\<in>set ys. video_tags v = None)"
    by (simp add: renderVideos_throws)
  have 3: "(\<exists>s'. renderVideos (Some ys) s = Inr s') \<longleftrightarrow> (\<forall>v\<in>set ys. video_tags v \<noteq> None)"
  proof (cases "renderVideos (Some ys) s")
    case (Inl e)
    then show ?thesis using renderVideos_throws [of ys s e] by auto
  next
    case (Inr s')
    have "\<not> (\<exists>v\<in>set ys. video_tags v = None)"
      using renderVideos_throws [of ys s TypeError] Inr by simp
    with Inr show ?thesis by auto
  qed
  have 5: "(\<forall>v\<in>set ys. video_tags v \<noteq> None) \<longrightarrow>
        renderVideos (Some ys) s =
          Inr (s\<lparr>videos_container :=
                 (if ys = [] then no_videos_html
                  else concat (map (\<lambda>v. projr (videoCard v)) ys))\<rparr>)"
    using map_throw_videoCard [of ys] by (simp add: renderVideos_def join_empty_sep)
  show ?thesis
  proof (cases "video_tags v")
    case None
    with 3 4 5 articleCard_undefined [of a] show ?thesis
      by (simp add: renderArticles_Some)
  next
    case (Some tags)
    with 3 4 5 articleCard_undefined [of a] videoCard_undefined [OF Some] show ?thesis
      by (simp add: renderArticles_Some)
  qed
qed

theorem renderers_on_missing_fields_witness:
  \<open>renderArticles (Some [art_bare, art_sleep]) page0 =
     Inr (page0\<lparr>articles_container := articleCard art_bare @ articleCard art_sleep\<rparr>)
   \<and> prefix ''\<newline>        <div class="article-card" data-category="undefined">'' (articleCard art_bare)
   \<and> sublist (''style="background-image: url('' @ [CHR 0x27] @ ''undefined'' @ [CHR 0x27] @ '')">'')
        (articleCard art_bare)
   \<and> sublist ''<span class="article-tag">undefined</span>'' (articleCard art_bare)
   \<and> sublist ''<h3 class="article-title">undefined</h3>'' (articleCard art_bare)
   \<and> sublist ''<p class="article-excerpt">undefined</p>'' (articleCard art_bare)
   \<and> sublist ''onclick="openArticle(undefined)">'' (articleCard art_bare)
   \<and> video_tags vid_bare \<noteq> None
   \<and> renderVideos (Some [vid_bare, vid_calm]) page0 =
       Inr (page0\<lparr>videos_container := projr (videoCard vid_bare) @ projr (videoCard vid_calm)\<rparr>)
   \<and> renderVideos (Some [vid_bare, vid_calm]) page0 \<noteq> Inl TypeError
   \<and> prefix ''\<newline>        <div class="video-card" data-category="undefined">''
        (projr (videoCard vid_bare))
   \<and> sublist (''style="background-image: url('' @ [CHR 0x27] @ ''undefined'' @ [CHR 0x27] @ '')"'')
        (projr (videoCard vid_bare))
   \<and> sublist (''onclick="openVideo('' @ [CHR 0x27] @ ''undefined'' @ [CHR 0x27] @ '')">'')
        (projr (videoCard vid_bare))
   \<and> sublist ''<h3 class="video-title">undefined</h3>'' (projr (videoCard vid_bare))
   \<and> sublist (''<div class="video-channel">undefined '' @ sym_bullet) (projr (videoCard vid_bare))
   \<and> sublist (sym_bullet @ '' undefined</div>'') (projr (videoCard vid_bare))\<close>
proof -
  have tags: "video_tags vid_bare \<noteq> None" "video_tags vid_calm \<noteq> None"
    by (simp_all add: vid_bare_def vid_calm_def)
  from renderers_on_missing_fields [of "[art_bare, art_sleep]" page0 art_bare
      "[vid_bare, vid_calm]" vid_bare] tags
  show ?thesis
    by (simp add: sample_categories sample_bare_fields del: append.simps)
qed

section \<open>Filters\<close>

lemma clickD_keeps_articles:
  assumes "articlesData s = Some xs" and "xs = [] \<longrightarrow> articles_container s = no_articles_html"
  shows "articlesData (clickD toLowerCase c s) = Some xs
    \<and> (xs = [] \<longrightarrow> articles_container (clickD toLowerCase c s) = no_articles_html)"
proof (cases c)
  case (FilterArticles t)
  with assms show ?thesis
    by (simp add: filterArticlesD_def renderArticlesD_def)
next
  case (FilterVideos t)
  with assms show ?thesis
    by (simp add: filterVideosD_def renderVideosD_def split: option.splits)
next
  case (OpenVideo y)
  with assms show ?thesis by (simp add: openVideoD_def)
next
  case CloseModal
  with assms show ?thesis by (simp add: closeModalD_def)
qed

lemma clickD_keeps_videos:
  assumes "videosData s = Some ys" and "ys = [] \<longrightarrow> videos_container s = no_videos_html"
  shows "videosData (clickD toLowerCase c s) = Some ys
    \<and> (ys = [] \<longrightarrow> videos_container (clickD toLowerCase c s) = no_videos_html)"
proof (cases c)
  case (FilterArticles t)
  with assms show ?thesis
    by (simp add: filterArticlesD_def renderArticlesD_def split: option.splits)
next
  case (FilterVideos t)
  with assms show ?thesis
    by (simp add: filterVideosD_def renderVideosD_def)
next
  case (OpenVideo y)
  with assms show ?thesis by (simp add: openVideoD_def)
next
  case CloseModal
  with assms show ?thesis by (simp add: closeModalD_def)
qed

lemma stepD_keeps_articles:
  assumes "articlesData s = Some xs" and "xs = [] \<longrightarrow> articles_container s = no_articles_html"
  shows "articlesData (stepD toLowerCase e s) = Some xs
    \<and> (xs = [] \<longrightarrow> articles_container (stepD toLowerCase e s) = no_articles_html)"
proof (cases e)
  case (Click c)
  with clickD_keeps_articles [OF assms, of toLowerCase c] show ?thesis by simp
next
  case (VideosFetched f)
  with assms show ?thesis
    by (simp add: loadVideosD_def loadVideosD_catch_def renderVideosD_def Let_def
        split: fetched.splits option.splits sum.splits)
qed

lemma vstepD_keeps_videos:
  assumes "videosData s = Some ys" and "ys = [] \<longrightarrow> videos_container s = no_videos_html"
  shows "videosData (vstepD toLowerCase e s) = Some ys
    \<and> (ys = [] \<longrightarrow> videos_container (vstepD toLowerCase e s) = no_videos_html)"
proof (cases e)
  case (VClick c)
  with clickD_keeps_videos [OF assms, of toLowerCase c] show ?thesis by simp
next
  case (ArticlesFetched f)
  with assms show ?thesis
    by (simp add: loadArticlesD_def loadArticlesD_catch_def renderArticlesD_def Let_def
        split: fetched.splits option.splits sum.splits)
qed

lemma runD_keeps_articles:
  "articlesData s = Some xs \<Longrightarrow> (xs = [] \<longrightarrow> articles_container s = no_articles_html) \<Longrightarrow>
   articlesData (runD toLowerCase evs s) = Some xs
   \<and> (xs = [] \<longrightarrow> articles_container (runD toLowerCase evs s) = no_articles_html)"
proof (induction evs arbitrary: s)
  case Nil
  then show ?case by simp
next
  case (Cons e evs)
  from stepD_keeps_articles [OF Cons.prems, of toLowerCase e]
  have "articlesData (stepD toLowerCase e s) = Some xs"
    and "xs = [] \<longrightarrow> articles_container (stepD toLowerCase e s) = no_articles_html"
    by simp_all
  from Cons.IH [OF this] show ?case by simp
qed

lemma vrunD_keeps_videos:
  "videosData s = Some ys \<Longrightarrow> (ys = [] \<longrightarrow> videos_container s = no_videos_html) \<Longrightarrow>
   videosData (vrunD toLowerCase evs s) = Some ys
   \<and> (ys = [] \<longrightarrow> videos_container (vrunD toLowerCase evs s) = no_videos_html)"
proof (induction evs arbitrary: s)
  case Nil
  then show ?case by simp
next
  case (Cons e evs)
  from vstepD_keeps_videos [OF Cons.prems, of toLowerCase e]
  have "videosData (vstepD toLowerCase e s) = Some ys"
    and "ys = [] \<longrightarrow> videos_container (vstepD toLowerCase e s) = no_videos_html"
    by simp_all
  from Cons.IH [OF this] show ?case by simp
qed

lemma loadArticlesD_success:
  "loadArticlesD (Resolved (Response True (Some (DocObject a v)))) s =
     s\<lparr>articlesData := Some (array_or_empty a),
       articles_container :=
         (if array_or_empty a = [] then no_articles_html
          else concat (map articleCardD (array_or_empty a)))\<rparr>"
  by (simp add: loadArticlesD_def Let_def renderArticlesD_Some)

lemma loadVideosD_success:
  "loadVideosD (Resolved (Response True (Some (DocObject a v)))) s =
     s\<lparr>videosData := Some (array_or_empty v),
       videos_container :=
         (if array_or_empty v = [] then no_videos_html
          else concat (map videoCardD (array_or_empty v)))\<rparr>"
  by (simp add: loadVideosD_def Let_def renderVideosD_Some)

lemma loaded_articles:
  "articlesData (runD toLowerCase evs
      (loadArticlesD (Resolved (Response True (Some (DocObject a v)))) s0)) =
     Some (array_or_empty a)
   \<and> (array_or_empty a = [] \<longrightarrow>
        articles_container (runD toLowerCase evs
          (loadArticlesD (Resolved (Response True (Some (DocObject a v)))) s0)) =
        no_articles_html)"
  by (rule runD_keeps_articles) (simp_all add: loadArticlesD_success)

lemma loaded_videos:
  "videosData (vrunD toLowerCase evs
      (loadVideosD (Resolved (Response True (Some (DocObject a v)))) s0)) =
     Some (array_or_empty v)
   \<and> (array_or_empty v = [] \<longrightarrow>
        videos_container (vrunD toLowerCase evs
          (loadVideosD (Resolved (Response True (Some (DocObject a v)))) s0)) =
        no_videos_html)"
  by (rule vrunD_keeps_videos) (simp_all add: loadVideosD_success)

text \<open>
  C7. Filtering with the sentinel \<open>all\<close> hands the loaded array itself to the renderer, so
  the container shows the rendering of the whole array, in its order, and the array is not
  changed. The defensive filter returns without rendering when the array is empty; after
  a successful load the container then already shows the rendering of the empty array, and
  no later event of the page changes that.
\<close>

theorem filter_all_is_identity:
  "(articlesData s = Some xs \<longrightarrow> filterArticles ''all'' s = renderArticles (Some xs) s)
   \<and> (videosData s = Some ys \<longrightarrow> filterVideos ''all'' s = renderVideos (Some ys) s)
   \<and> (articlesData s = Some xs \<and> xs \<noteq> [] \<longrightarrow>
        filterArticlesD toLowerCase ''all'' s = renderArticlesD (Some xs) s)
   \<and> (videosData s = Some ys \<and> ys \<noteq> [] \<longrightarrow>
        filterVideosD toLowerCase ''all'' s = renderVideosD (Some ys) s)
   \<and> (articlesData s = Some [] \<longrightarrow> filterArticlesD toLowerCase ''all'' s = s)
   \<and> (videosData s = Some [] \<longrightarrow> filterVideosD toLowerCase ''all'' s = s)
   \<and> (let s1 = runD toLowerCase evs
                 (loadArticlesD (Resolved (Response True (Some (DocObject a v)))) s0)
      in articlesData s1 = Some (array_or_empty a)
         \<and> articles_container (filterArticlesD toLowerCase ''all'' s1) =
             articles_container (renderArticlesD (Some (array_or_empty a)) s1)
         \<and> articlesData (filterArticlesD toLowerCase ''all'' s1) = Some (array_or_empty a))"
proof -
  let ?s1 = "runD toLowerCase evs
      (loadArticlesD (Resolved (Response True (Some (DocObject a v)))) s0)"
  let ?xs = "array_or_empty a"
  from loaded_articles [of toLowerCase evs a v s0]
  have inv: "articlesData ?s1 = Some ?xs"
    "?xs = [] \<longrightarrow> articles_container ?s1 = no_articles_html"
    by simp_all
  have reach: "articles_container (filterArticlesD toLowerCase ''all'' ?s1) =
      articles_container (renderArticlesD (Some ?xs) ?s1)
    \<and> articlesData (filterArticlesD toLowerCase ''all'' ?s1) = Some ?xs"
    using inv by (simp add: filterArticlesD_def renderArticlesD_def)
  have web: "(articlesData s = Some xs \<longrightarrow> filterArticles ''all'' s = renderArticles (Some xs) s)
    \<and> (videosData s = Some ys \<longrightarrow> filterVideos ''all'' s = renderVideos (Some ys) s)"
    by (simp add: filterArticles_def filterVideos_def)
  have dfs: "(articlesData s = Some xs \<and> xs \<noteq> [] \<longrightarrow>
        filterArticlesD toLowerCase ''all'' s = renderArticlesD (Some xs) s)
   \<and> (videosData s = Some ys \<and> ys \<noteq> [] \<longrightarrow>
        filterVideosD toLowerCase ''all'' s = renderVideosD (Some ys) s)
   \<and> (articlesData s = Some [] \<longrightarrow> filterArticlesD toLowerCase ''all'' s = s)
   \<and> (videosData s = Some [] \<longrightarrow> filterVideosD toLowerCase ''all'' s = s)"
    by (simp add: filterArticlesD_def filterVideosD_def)
  from web dfs inv(1) reach show ?thesis by (simp add: Let_def)
qed

theorem filter_all_is_identity_witness:
  "filterArticles ''all'' (page0\<lparr>articlesData := Some [art_sleep, art_Sleep]\<rparr>) =
     Inr (page0\<lparr>articlesData := Some [art_sleep, art_Sleep],
            articles_container := articleCard art_sleep @ articleCard art_Sleep\<rparr>)
   \<and> filterArticlesD ascii_toLowerCase ''all'' (page0\<lparr>articlesData := Some [art_sleep, art_Sleep]\<rparr>) =
       page0\<lparr>articlesData := Some [art_sleep, art_Sleep],
            articles_container := articleCardD art_sleep @ articleCardD art_Sleep\<rparr>
   \<and> filterVideosD ascii_toLowerCase ''all'' (page0\<lparr>videosData := Some [vid_calm]\<rparr>) =
       page0\<lparr>videosData := Some [vid_calm], videos_container := videoCardD vid_calm\<rparr>
   \<and> filterVideos ''all'' (page0\<lparr>videosData := Some [vid_calm]\<rparr>) =
       renderVideos (Some [vid_calm]) (page0\<lparr>videosData := Some [vid_calm]\<rparr>)
   \<and> filterArticlesD ascii_toLowerCase ''all'' page0 = page0
   \<and> filterVideosD ascii_toLowerCase ''all'' page0 = page0
   \<and> articles_container (filterArticlesD ascii_toLowerCase ''all''
        (runD ascii_toLowerCase
          [Click (FilterArticles ''sleep''), Click (OpenVideo ''abc123''), Click CloseModal]
          (loadArticlesD (Resolved (Response True (Some (DocObject None None)))) page0))) =
       no_articles_html"
  using filter_all_is_identity [of "page0\<lparr>articlesData := Some [art_sleep, art_Sleep]\<rparr>"
      "[art_sleep, art_Sleep]" "[]" ascii_toLowerCase "[]" None None page0]
    filter_all_is_identity [of "page0\<lparr>videosData := Some [vid_calm]\<rparr>"
      "[]" "[vid_calm]" ascii_toLowerCase
      "[Click (FilterArticles ''sleep''), Click (OpenVideo ''abc123''), Click CloseModal]"
      None None page0]
    filter_all_is_identity [of page0 "[]" "[]" ascii_toLowerCase "[]" None None page0]
  by (simp add: renderArticles_Some renderArticlesD_Some renderVideosD_Some page0_def
      array_or_empty_def Let_def)

lemma filteredArticlesD_lower_case:
  assumes "\<forall>a\<in>set xs. \<exists>c. article_category a = Some c \<and> toLowerCase c = c"
  shows "filteredArticlesD toLowerCase category xs = filteredArticles category xs"
  unfolding filteredArticlesD_def filteredArticles_def
proof (rule filter_cong [OF refl])
  fix a assume "a \<in> set xs"
  with assms obtain c where c: "article_category a = Some c" "toLowerCase c = c" by blast
  then show "(toLowerCase (or_else (article_category a) []) = category) =
      (article_category a = Some category)"
    by (auto simp: or_else_def)
qed

lemma filteredVideosD_lower_case:
  assumes "\<forall>v\<in>set ys. \<exists>c. video_category v = Some c \<and> toLowerCase c = c"
  shows "filteredVideosD toLowerCase category ys = filteredVideos category ys"
  unfolding filteredVideosD_def filteredVideos_def
proof (rule filter_cong [OF refl])
  fix v assume "v \<in> set ys"
  with assms obtain c where c: "video_category v = Some c" "toLowerCase c = c" by blast
  then show "(toLowerCase (or_else (video_category v) []) = category) =
      (video_category v = Some category)"
    by (auto simp: or_else_def)
qed

text \<open>
  C1. The claim fails on the defensive script: in the array that holds the one article
  \<open>art_Sleep\<close>, the category \<open>Sleep\<close> occurs in exactly one item, and the filter called
  with \<open>Sleep\<close> renders no item but the placeholder message, which is not the rendering of
  that item.
\<close>

theorem filterArticlesD_exact_counterexample:
  "filter (\<lambda>a. article_category a = Some ''Sleep'') [art_Sleep] = [art_Sleep]
   \<and> ''Sleep'' \<noteq> ''all''
   \<and> articles_container
        (filterArticlesD ascii_toLowerCase ''Sleep'' (page0\<lparr>articlesData := Some [art_Sleep]\<rparr>)) =
       no_articles_html
   \<and> articles_container (renderArticlesD (Some [art_Sleep]) (page0\<lparr>articlesData := Some [art_Sleep]\<rparr>))
       \<noteq> no_articles_html"
  by (simp add: filterArticlesD_def filteredArticlesD_def art_Sleep_def or_else_def
      ascii_toLowerCase_Sleep renderArticlesD_def articleCardD_def no_articles_html_def)

text \<open>
  C1, amended. In the script of \<^verbatim>\<open>src/web/script.js\<close>, for a loaded array and a category
  other than \<open>all\<close>, \<^verbatim>\<open>filterArticles\<close> (and \<^verbatim>\<open>filterVideos\<close>) hands the renderer exactly
  the items whose category is the given one, in their order in the array, as many as
  there are positions of the array with that category; when there is none, the container
  shows the placeholder message. In the defensive script the items handed to the renderer
  are those whose lower-cased category, the empty string for an item without one, is the
  given string; they are the items whose category is the given string whenever every item
  of the array carries a category that is its own lower-casing. On a non-empty array the
  defensive filter renders these items, or the placeholder message when there is none; on
  an empty array it returns without rendering, and after a successful load and any later
  events of the page the container shows the placeholder message all the same. In every
  case, after a successful load and any later events, the container shows after the
  filter the rendering of the selected items of the loaded array.
\<close>

theorem filter_by_category:
  "(articlesData s = Some xs \<and> category \<noteq> ''all'' \<longrightarrow>
      filterArticles category s =
        renderArticles (Some (filter (\<lambda>a. article_category a = Some category) xs)) s)
   \<and> (videosData s = Some ys \<and> category \<noteq> ''all'' \<longrightarrow>
      filterVideos category s =
        renderVideos (Some (filter (\<lambda>v. video_category v = Some category) ys)) s)
   \<and> subseq (filteredArticles category xs) xs
   \<and> length (filteredArticles category xs) =
       card {i. i < length xs \<and> article_category (xs ! i) = Some category}
   \<and> subseq (filteredVideos category ys) ys
   \<and> length (filteredVideos category ys) =
       card {i. i < length ys \<and> video_category (ys ! i) = Some category}
   \<and> (articlesData s = Some xs \<and> category \<noteq> ''all''
        \<and> (\<forall>a\<in>set xs. article_category a \<noteq> Some category) \<longrightarrow>
      filterArticles category s = Inr (s\<lparr>articles_container := no_articles_html\<rparr>))
   \<and> (videosData s = Some ys \<and> category \<noteq> ''all''
        \<and> (\<forall>v\<in>set ys. video_category v \<noteq> Some category) \<longrightarrow>
      filterVideos category s = Inr (s\<lparr>videos_container := no_videos_html\<rparr>))
   \<and> (articlesData s = Some xs \<and> xs \<noteq> [] \<and> category \<noteq> ''all''
        \<and> (\<forall>a\<in>set xs. \<exists>c. article_category a = Some c \<and> toLowerCase c = c) \<longrightarrow>
      filterArticlesD toLowerCase category s =
        renderArticlesD (Some (filter (\<lambda>a. article_category a = Some category) xs)) s)
   \<and> (videosData s = Some ys \<and> ys \<noteq> [] \<and> category \<noteq> ''all''
        \<and> (\<forall>v\<in>set ys. \<exists>c. video_category v = Some c \<and> toLowerCase c = c) \<longrightarrow>
      filterVideosD toLowerCase category s =
        renderVideosD (Some (filter (\<lambda>v. video_category v = Some category) ys)) s)
   \<and> (articlesData s = Some xs \<and> xs \<noteq> [] \<and> category \<noteq> ''all'' \<longrightarrow>
      filterArticlesD toLowerCase category s =
        renderArticlesD
          (Some (filter (\<lambda>a. toLowerCase (or_else (article_category a) []) = category) xs)) s)
   \<and> (videosData s = Some ys \<and> ys \<noteq> [] \<and> category \<noteq> ''all'' \<longrightarrow>
      filterVideosD toLowerCase category s =
        renderVideosD
          (Some (filter (\<lambda>v. toLowerCase (or_else (video_category v) []) = category) ys)) s)
   \<and> (articlesData s = Some xs \<and> xs \<noteq> [] \<and> category \<noteq> ''all''
        \<and> (\<forall>a\<in>set xs. toLowerCase (or_else (article_category a) []) \<noteq> category) \<longrightarrow>
      filterArticlesD toLowerCase category s = s\<lparr>articles_container := no_articles_html\<rparr>)
   \<and> (videosData s = Some ys \<and> ys \<noteq> [] \<and> category \<noteq> ''all''
        \<and> (\<forall>v\<in>set ys. toLowerCase (or_else (video_category v) []) \<noteq> category) \<longrightarrow>
      filterVideosD toLowerCase category s = s\<lparr>videos_container := no_videos_html\<rparr>)
   \<and> (articlesData s = Some [] \<longrightarrow> filterArticlesD toLowerCase category s = s)
   \<and> (videosData s = Some [] \<longrightarrow> filterVideosD toLowerCase category s = s)
   \<and> (let s1 = runD toLowerCase evs
                 (loadArticlesD (Resolved (Response True (Some (DocObject a v)))) s0)
      in category \<noteq> ''all'' \<longrightarrow>
         articlesData s1 = Some (array_or_empty a)
         \<and> articles_container (filterArticlesD toLowerCase category s1) =
             articles_container
               (renderArticlesD
                  (Some (filter (\<lambda>a. toLowerCase (or_else (article_category a) []) = category)
                     (array_or_empty a))) s1))
   \<and> (let s2 = vrunD toLowerCase vevs
                 (loadVideosD (Resolved (Response True (Some (DocObject a v)))) s0)
      in category \<noteq> ''all'' \<longrightarrow>
         videosData s2 = Some (array_or_empty v)
         \<and> videos_container (filterVideosD toLowerCase category s2) =
             videos_container
               (renderVideosD
                  (Some (filter (\<lambda>v. toLowerCase (or_else (video_category v) []) = category)
                     (array_or_empty v))) s2))"
proof -
  have w1: "articlesData s = Some xs \<and> category \<noteq> ''all'' \<longrightarrow>
      filterArticles category s =
        renderArticles (Some (filter (\<lambda>a. article_category a = Some category) xs)) s"
    by (simp add: filterArticles_def filteredArticles_def)
  have w2: "videosData s = Some ys \<and> category \<noteq> ''all'' \<longrightarrow>
      filterVideos category s =
        renderVideos (Some (filter (\<lambda>v. video_category v = Some category) ys)) s"
    by (simp add: filterVideos_def filteredVideos_def)
  have o1: "subseq (filteredArticles category xs) xs"
    by (simp add: filteredArticles_def)
  have o2: "subseq (filteredVideos category ys) ys"
    by (simp add: filteredVideos_def)
  have k1: "length (filteredArticles category xs) =
       card {i. i < length xs \<and> article_category (xs ! i) = Some category}"
    by (simp add: filteredArticles_def length_filter_conv_card)
  have k2: "length (filteredVideos category ys) =
       card {i. i < length ys \<and> video_category (ys ! i) = Some category}"
    by (simp add: filteredVideos_def length_filter_conv_card)
  have z1: "articlesData s = Some xs \<and> category \<noteq> ''all''
        \<and> (\<forall>a\<in>set xs. article_category a \<noteq> Some category) \<longrightarrow>
      filterArticles category s = Inr (s\<lparr>articles_container := no_articles_html\<rparr>)"
    by (simp add: filterArticles_def filteredArticles_def renderArticles_def filter_empty_conv)
  have z2: "videosData s = Some ys \<and> category \<noteq> ''all''
        \<and> (\<forall>v\<in>set ys. video_category v \<noteq> Some category) \<longrightarrow>
      filterVideos category s = Inr (s\<lparr>videos_container := no_videos_html\<rparr>)"
    by (simp add: filterVideos_def filteredVideos_def renderVideos_def filter_empty_conv)
  have d1: "articlesData s = Some xs \<and> xs \<noteq> [] \<and> category \<noteq> ''all'' \<longrightarrow>
      filterArticlesD toLowerCase category s =
        renderArticlesD
          (Some (filter (\<lambda>a. toLowerCase (or_else (article_category a) []) = category) xs)) s"
    by (simp add: filterArticlesD_def filteredArticlesD_def)
  have d2: "videosData s = Some ys \<and> ys \<noteq> [] \<and> category \<noteq> ''all'' \<longrightarrow>
      filterVideosD toLowerCase category s =
        renderVideosD
          (Some (filter (\<lambda>v. toLowerCase (or_else (video_category v) []) = category) ys)) s"
    by (simp add: filterVideosD_def filteredVideosD_def)
  have l1: "articlesData s = Some xs \<and> xs \<noteq> [] \<and> category \<noteq> ''all''
        \<and> (\<forall>a\<in>set xs. \<exists>c. article_category a = Some c \<and> toLowerCase c = c) \<longrightarrow>
      filterArticlesD toLowerCase category s =
        renderArticlesD (Some (filter (\<lambda>a. article_category a = Some category) xs)) s"
    using filteredArticlesD_lower_case [of xs toLowerCase category]
    by (auto simp: filterArticlesD_def filteredArticles_def)
  have l2: "videosData s = Some ys \<and> ys \<noteq> [] \<and> category \<noteq> ''all''
        \<and> (\<forall>v\<in>set ys. \<exists>c. video_category v = Some c \<and> toLowerCase c = c) \<longrightarrow>
      filterVideosD toLowerCase category s =
        renderVideosD (Some (filter (\<lambda>v. video_category v = Some category) ys)) s"
    using filteredVideosD_lower_case [of ys toLowerCase category]
    by (auto simp: filterVideosD_def filteredVideos_def)
  have e1: "articlesData s = Some xs \<and> xs \<noteq> [] \<and> category \<noteq> ''all''
        \<and> (\<forall>a\<in>set xs. toLowerCase (or_else (article_category a) []) \<noteq> category) \<longrightarrow>
      filterArticlesD toLowerCase category s = s\<lparr>articles_container := no_articles_html\<rparr>"
    by (simp add: filterArticlesD_def filteredArticlesD_def renderArticlesD_def filter_empty_conv)
  have e2: "videosData s = Some ys \<and> ys \<noteq> [] \<and> category \<noteq> ''all''
        \<and> (\<forall>v\<in>set ys. toLowerCase (or_else (video_category v) []) \<noteq> category) \<longrightarrow>
      filterVideosD toLowerCase category s = s\<lparr>videos_container := no_videos_html\<rparr>"
    by (simp add: filterVideosD_def filteredVideosD_def renderVideosD_def filter_empty_conv)
  have n1: "articlesData s = Some [] \<longrightarrow> filterArticlesD toLowerCase category s = s"
    by (simp add: filterArticlesD_def)
  have n2: "videosData s = Some [] \<longrightarrow> filterVideosD toLowerCase category s = s"
    by (simp add: filterVideosD_def)
  let ?s1 = "runD toLowerCase evs
      (loadArticlesD (Resolved (Response True (Some (DocObject a v)))) s0)"
  let ?s2 = "vrunD toLowerCase vevs
      (loadVideosD (Resolved (Response True (Some (DocObject a v)))) s0)"
  from loaded_articles [of toLowerCase evs a v s0]
  have i1: "articlesData ?s1 = Some (array_or_empty a)"
    "array_or_empty a = [] \<longrightarrow> articles_container ?s1 = no_articles_html"
    by simp_all
  from loaded_videos [of toLowerCase vevs a v s0]
  have i2: "videosData ?s2 = Some (array_or_empty v)"
    "array_or_empty v = [] \<longrightarrow> videos_container ?s2 = no_videos_html"
    by simp_all
  have r1: "category \<noteq> ''all'' \<longrightarrow>
      articlesData ?s1 = Some (array_or_empty a)
      \<and> articles_container (filterArticlesD toLowerCase category ?s1) =
          articles_container
            (renderArticlesD
               (Some (filter (\<lambda>a. toLowerCase (or_else (article_category a) []) = category)
                  (array_or_empty a))) ?s1)"
    using i1 by (simp add: filterArticlesD_def filteredArticlesD_def renderArticlesD_def)
  have r2: "category \<noteq> ''all'' \<longrightarrow>
      videosData ?s2 = Some (array_or_empty v)
      \<and> videos_container (filterVideosD toLowerCase category ?s2) =
          videos_container
            (renderVideosD
               (Some (filter (\<lambda>v. toLowerCase (or_else (video_category v) []) = category)
                  (array_or_empty v))) ?s2)"
    using i2 by (simp add: filterVideosD_def filteredVideosD_def renderVideosD_def)
  from w1 w2 o1 k1 o2 k2 z1 z2 l1 l2 d1 d2 e1 e2 n1 n2 r1 r2 show ?thesis
    unfolding Let_def by blast
qed

theorem filter_by_category_witness:
  "filterArticles ''sleep'' (page0\<lparr>articlesData := Some [art_sleep, art_Sleep, art_bare]\<rparr>) =
     Inr (page0\<lparr>articlesData := Some [art_sleep, art_Sleep, art_bare],
            articles_container := articleCard art_sleep\<rparr>)
   \<and> filterArticles ''food'' (page0\<lparr>articlesData := Some [art_sleep, art_Sleep, art_bare]\<rparr>) =
       Inr (page0\<lparr>articlesData := Some [art_sleep, art_Sleep, art_bare],
              articles_container := no_articles_html\<rparr>)
   \<and> filterArticlesD ascii_toLowerCase ''sleep''
        (page0\<lparr>articlesData := Some [art_sleep, art_Sleep, art_bare]\<rparr>) =
       page0\<lparr>articlesData := Some [art_sleep, art_Sleep, art_bare],
            articles_container := articleCardD art_sleep @ articleCardD art_Sleep\<rparr>
   \<and> filterArticlesD ascii_toLowerCase ''sleep'' (page0\<lparr>articlesData := Some [art_sleep]\<rparr>) =
       renderArticlesD (Some [art_sleep]) (page0\<lparr>articlesData := Some [art_sleep]\<rparr>)
   \<and> filterVideosD ascii_toLowerCase ''food'' (page0\<lparr>videosData := Some [vid_calm]\<rparr>) =
       page0\<lparr>videosData := Some [vid_calm], videos_container := no_videos_html\<rparr>
   \<and> filterArticlesD ascii_toLowerCase ''sleep'' page0 = page0
   \<and> articles_container
        (filterArticlesD ascii_toLowerCase ''sleep''
          (runD ascii_toLowerCase [Click (FilterArticles ''food''), VideosFetched Rejected]
            (loadArticlesD (Resolved (Response True (Some (DocObject (Some []) None)))) page0))) =
       no_articles_html
   \<and> videos_container
        (filterVideosD ascii_toLowerCase ''sleep''
          (vrunD ascii_toLowerCase [VClick (FilterVideos ''food''), ArticlesFetched Rejected]
            (loadVideosD (Resolved (Response True (Some (DocObject None (Some [vid_calm, vid_bare])))))
              page0))) =
       videoCardD vid_calm"
proof -
  let ?s = "page0\<lparr>articlesData := Some [art_sleep, art_Sleep, art_bare]\<rparr>"
  have 1: "filterArticles ''sleep'' ?s = Inr (?s\<lparr>articles_container := articleCard art_sleep\<rparr>)"
    using filter_by_category [of ?s "[art_sleep, art_Sleep, art_bare]" "''sleep''" "[]"]
    by (simp add: sample_categories renderArticles_Some)
  have 2: "filterArticles ''food'' ?s = Inr (?s\<lparr>articles_container := no_articles_html\<rparr>)"
    using filter_by_category [of ?s "[art_sleep, art_Sleep, art_bare]" "''food''" "[]"]
    by (simp add: sample_categories renderArticles_Some)
  have 3: "filterArticlesD ascii_toLowerCase ''sleep'' ?s =
      ?s\<lparr>articles_container := articleCardD art_sleep @ articleCardD art_Sleep\<rparr>"
    using filter_by_category [of ?s "[art_sleep, art_Sleep, art_bare]" "''sleep''" "[]"
        ascii_toLowerCase]
    by (simp add: sample_categories renderArticlesD_Some or_else_def
        ascii_toLowerCase_Sleep ascii_toLowerCase_sleep ascii_toLowerCase_empty)
  have 4: "filterArticlesD ascii_toLowerCase ''sleep'' (page0\<lparr>articlesData := Some [art_sleep]\<rparr>) =
      renderArticlesD (Some [art_sleep]) (page0\<lparr>articlesData := Some [art_sleep]\<rparr>)"
    using filter_by_category [of "page0\<lparr>articlesData := Some [art_sleep]\<rparr>"
        "[art_sleep]" "''sleep''" "[]" ascii_toLowerCase]
    by (simp add: sample_categories ascii_toLowerCase_sleep)
  have 5: "filterVideosD ascii_toLowerCase ''food'' (page0\<lparr>videosData := Some [vid_calm]\<rparr>) =
      page0\<lparr>videosData := Some [vid_calm], videos_container := no_videos_html\<rparr>"
    using filter_by_category [of "page0\<lparr>videosData := Some [vid_calm]\<rparr>"
        "[]" "''food''" "[vid_calm]" ascii_toLowerCase]
    by (simp add: sample_categories or_else_def ascii_toLowerCase_sleep renderVideosD_Some)
  have 6: "filterArticlesD ascii_toLowerCase ''sleep'' page0 = page0"
    using filter_by_category [of page0 "[]" "''sleep''" "[]" ascii_toLowerCase]
    by (simp add: page0_def)
  have 7: "articles_container
        (filterArticlesD ascii_toLowerCase ''sleep''
          (runD ascii_toLowerCase [Click (FilterArticles ''food''), VideosFetched Rejected]
            (loadArticlesD (Resolved (Response True (Some (DocObject (Some []) None)))) page0))) =
       no_articles_html"
    using filter_by_category [of page0 "[]" "''sleep''" "[]" ascii_toLowerCase
        "[Click (FilterArticles ''food''), VideosFetched Rejected]" "Some []" None page0 "[]"]
    by (simp add: Let_def array_or_empty_def renderArticlesD_Some del: runD.simps)
  have 8: "videos_container
        (filterVideosD ascii_toLowerCase ''sleep''
          (vrunD ascii_toLowerCase [VClick (FilterVideos ''food''), ArticlesFetched Rejected]
            (loadVideosD (Resolved (Response True (Some (DocObject None (Some [vid_calm, vid_bare])))))
              page0))) =
       videoCardD vid_calm"
    using filter_by_category [of page0 "[]" "''sleep''" "[]" ascii_toLowerCase
        "[]" None "Some [vid_calm, vid_bare]" page0
        "[VClick (FilterVideos ''food''), ArticlesFetched Rejected]"]
    by (simp add: Let_def array_or_empty_def renderVideosD_Some sample_categories
        sample_bare_fields or_else_def ascii_toLowerCase_sleep ascii_toLowerCase_empty
        del: vrunD.simps)
  from 1 2 3 4 5 6 7 8 show ?thesis by simp
qed

text \<open>
  C2. The claim fails on the defensive script: the category \<open>sleep\<close> of the article
  \<open>art_sleep\<close> equals the target \<open>Sleep\<close> up to letter case, and the filter called with
  \<open>Sleep\<close> does not select the article.
\<close>

theorem filteredArticlesD_case_counterexample:
  "article_category art_sleep = Some ''sleep''
   \<and> ascii_toLowerCase ''sleep'' = ascii_toLowerCase ''Sleep''
   \<and> ''Sleep'' \<noteq> ''all''
   \<and> filteredArticlesD ascii_toLowerCase ''Sleep'' [art_sleep] = []
   \<and> articles_container
        (filterArticlesD ascii_toLowerCase ''Sleep'' (page0\<lparr>articlesData := Some [art_sleep]\<rparr>)) =
       no_articles_html"
  by (simp add: filterArticlesD_def filteredArticlesD_def art_sleep_def or_else_def
      ascii_toLowerCase_Sleep ascii_toLowerCase_sleep renderArticlesD_def)

text \<open>
  C2, amended. The filter of the defensive script selects an item exactly when the
  lower-cased category of the item, the empty string for an item without a category, is
  the target string as it is given; the target itself is not lower-cased. So for a target
  that is its own lower-casing the match ignores the letter case of the item's category:
  an item is selected exactly when its category and the target have the same lower-casing.
  The filter of \<^verbatim>\<open>src/web/script.js\<close> selects an item exactly when its category is the
  target string. In both scripts the selected items are what the filter hands to the
  renderer.
\<close>

theorem category_match:
  "(a \<in> set (filteredArticles target xs) \<longleftrightarrow> a \<in> set xs \<and> article_category a = Some target)
   \<and> (v \<in> set (filteredVideos target ys) \<longleftrightarrow> v \<in> set ys \<and> video_category v = Some target)
   \<and> (a \<in> set (filteredArticlesD toLowerCase target xs) \<longleftrightarrow>
        a \<in> set xs \<and> toLowerCase (or_else (article_category a) []) = target)
   \<and> (v \<in> set (filteredVideosD toLowerCase target ys) \<longleftrightarrow>
        v \<in> set ys \<and> toLowerCase (or_else (video_category v) []) = target)
   \<and> (toLowerCase target = target \<longrightarrow>
        (a \<in> set (filteredArticlesD toLowerCase target xs) \<longleftrightarrow>
           a \<in> set xs \<and> toLowerCase (or_else (article_category a) []) = toLowerCase target)
        \<and> (v \<in> set (filteredVideosD toLowerCase target ys) \<longleftrightarrow>
           v \<in> set ys \<and> toLowerCase (or_else (video_category v) []) = toLowerCase target))
   \<and> (articlesData s = Some xs \<and> target \<noteq> ''all'' \<longrightarrow>
        filterArticles target s = renderArticles (Some (filteredArticles target xs)) s)
   \<and> (videosData s = Some ys \<and> target \<noteq> ''all'' \<longrightarrow>
        filterVideos target s = renderVideos (Some (filteredVideos target ys)) s)
   \<and> (articlesData s = Some xs \<and> xs \<noteq> [] \<and> target \<noteq> ''all'' \<longrightarrow>
        filterArticlesD toLowerCase target s =
          renderArticlesD (Some (filteredArticlesD toLowerCase target xs)) s)
   \<and> (videosData s = Some ys \<and> ys \<noteq> [] \<and> target \<noteq> ''all'' \<longrightarrow>
        filterVideosD toLowerCase target s =
          renderVideosD (Some (filteredVideosD toLowerCase target ys)) s)"
proof -
  have sel: "(a \<in> set (filteredArticles target xs) \<longleftrightarrow> a \<in> set xs \<and> article_category a = Some target)
   \<and> (v \<in> set (filteredVideos target ys) \<longleftrightarrow> v \<in> set ys \<and> video_category v = Some target)
   \<and> (a \<in> set (filteredArticlesD toLowerCase target xs) \<longleftrightarrow>
        a \<in> set xs \<and> toLowerCase (or_else (article_category a) []) = target)
   \<and> (v \<in> set (filteredVideosD toLowerCase target ys) \<longleftrightarrow>
        v \<in> set ys \<and> toLowerCase (or_else (video_category v) []) = target)"
    by (simp add: filteredArticles_def filteredVideos_def filteredArticlesD_def
        filteredVideosD_def)
  have call: "(articlesData s = Some xs \<and> target \<noteq> ''all'' \<longrightarrow>
        filterArticles target s = renderArticles (Some (filteredArticles target xs)) s)
   \<and> (videosData s = Some ys \<and> target \<noteq> ''all'' \<longrightarrow>
        filterVideos target s = renderVideos (Some (filteredVideos target ys)) s)
   \<and> (articlesData s = Some xs \<and> xs \<noteq> [] \<and> target \<noteq> ''all'' \<longrightarrow>
        filterArticlesD toLowerCase target s =
          renderArticlesD (Some (filteredArticlesD toLowerCase target xs)) s)
   \<and> (videosData s = Some ys \<and> ys \<noteq> [] \<and> target \<noteq> ''all'' \<longrightarrow>
        filterVideosD toLowerCase target s =
          renderVideosD (Some (filteredVideosD toLowerCase target ys)) s)"
    by (simp add: filterArticles_def filterVideos_def filterArticlesD_def filterVideosD_def)
  from sel call show ?thesis by simp
qed

theorem category_match_witness:
  "ascii_toLowerCase ''sleep'' = ''sleep''
   \<and> art_Sleep \<in> set (filteredArticlesD ascii_toLowerCase ''sleep'' [art_sleep, art_Sleep, art_bare])
   \<and> art_bare \<notin> set (filteredArticlesD ascii_toLowerCase ''sleep'' [art_sleep, art_Sleep, art_bare])
   \<and> art_Sleep \<notin> set (filteredArticles ''sleep'' [art_sleep, art_Sleep, art_bare])
   \<and> filterArticlesD ascii_toLowerCase ''sleep''
        (page0\<lparr>articlesData := Some [art_sleep, art_Sleep, art_bare]\<rparr>) =
       renderArticlesD
         (Some (filteredArticlesD ascii_toLowerCase ''sleep'' [art_sleep, art_Sleep, art_bare]))
         (page0\<lparr>articlesData := Some [art_sleep, art_Sleep, art_bare]\<rparr>)"
  using category_match [of art_Sleep "''sleep''" "[art_sleep, art_Sleep, art_bare]" vid_calm "[]"
      ascii_toLowerCase "page0\<lparr>articlesData := Some [art_sleep, art_Sleep, art_bare]\<rparr>"]
    category_match [of art_bare "''sleep''" "[art_sleep, art_Sleep, art_bare]" vid_calm "[]"
      ascii_toLowerCase "page0\<lparr>articlesData := Some [art_sleep, art_Sleep, art_bare]\<rparr>"]
  by (simp add: sample_categories or_else_def ascii_toLowerCase_Sleep ascii_toLowerCase_sleep
      ascii_toLowerCase_empty)


section \<open>Loaders\<close>

lemma renderArticles_other:
  "renderArticles a s = Inr s' \<Longrightarrow>
   videos_container s' = videos_container s \<and> videosData s' = videosData s
   \<and> articlesData s' = articlesData s"
  by (auto simp: renderArticles_def split: option.splits if_splits)

lemma renderVideos_other:
  "renderVideos v s = Inr s' \<Longrightarrow>
   articles_container s' = articles_container s \<and> articlesData s' = articlesData s
   \<and> videosData s' = videosData s"
  by (auto simp: renderVideos_def split: option.splits if_splits sum.splits)

lemma loadArticles_other:
  "videos_container (loadArticles f s) = videos_container s
   \<and> videosData (loadArticles f s) = videosData s"
proof (cases f)
  case Rejected
  then show ?thesis by (simp add: loadArticles_def loadArticles_catch_def)
next
  case (Resolved r)
  show ?thesis
  proof (cases "json r")
    case None
    with Resolved show ?thesis by (simp add: loadArticles_def loadArticles_catch_def)
  next
    case (Some data)
    show ?thesis
    proof (cases "get_articles data")
      case (Inl e)
      with Resolved Some show ?thesis by (simp add: loadArticles_def loadArticles_catch_def)
    next
      case (Inr a)
      show ?thesis
      proof (cases "renderArticles a (s\<lparr>articlesData := a\<rparr>)")
        case (Inl e)
        with Resolved Some Inr show ?thesis
          by (simp add: loadArticles_def loadArticles_catch_def Let_def)
      next
        case r: (Inr s2)
        from renderArticles_other [OF r] Resolved Some Inr r show ?thesis
          by (simp add: loadArticles_def Let_def)
      qed
    qed
  qed
qed

lemma loadVideos_other:
  "articles_container (loadVideos f s) = articles_container s
   \<and> articlesData (loadVideos f s) = articlesData s"
proof (cases f)
  case Rejected
  then show ?thesis by (simp add: loadVideos_def loadVideos_catch_def)
next
  case (Resolved r)
  show ?thesis
  proof (cases "json r")
    case None
    with Resolved show ?thesis by (simp add: loadVideos_def loadVideos_catch_def)
  next
    case (Some data)
    show ?thesis
    proof (cases "get_videos data")
      case (Inl e)
      with Resolved Some show ?thesis by (simp add: loadVideos_def loadVideos_catch_def)
    next
      case (Inr v)
      show ?thesis
      proof (cases "renderVideos v (s\<lparr>videosData := v\<rparr>)")
        case (Inl e)
        with Resolved Some Inr show ?thesis
          by (simp add: loadVideos_def loadVideos_catch_def Let_def)
      next
        case r: (Inr s2)
        from renderVideos_other [OF r] Resolved Some Inr r show ?thesis
          by (simp add: loadVideos_def Let_def)
      qed
    qed
  qed
qed

lemma loadArticlesD_other:
  "videos_container (loadArticlesD f s) = videos_container s
   \<and> videosData (loadArticlesD f s) = videosData s"
  by (simp add: loadArticlesD_def loadArticlesD_catch_def renderArticlesD_def Let_def
      split: fetched.splits option.splits sum.splits)

lemma loadVideosD_other:
  "articles_container (loadVideosD f s) = articles_container s
   \<and> articlesData (loadVideosD f s) = articlesData s"
  by (simp add: loadVideosD_def loadVideosD_catch_def renderVideosD_def Let_def
      split: fetched.splits option.splits sum.splits)

text \<open>
  C4. The claim fails on the loader of \<^verbatim>\<open>src/web/script.js\<close>, which never reads the
  status of the response: a response with a non-success status whose body is a JSON
  document with an \<^verbatim>\<open>articles\<close> array is rendered, and the container shows the card of
  the article, not the error message.
\<close>

theorem loadArticles_status_counterexample:
  "ok (Response False (Some (DocObject (Some [art_sleep]) (Some [])))) = False
   \<and> articles_container
        (loadArticles (Resolved (Response False (Some (DocObject (Some [art_sleep]) (Some []))))) page0) =
       articleCard art_sleep
   \<and> articleCard art_sleep \<noteq> articles_error_html"
  by (simp add: loadArticles_def Let_def renderArticles_def articleCard_def
      articles_error_html_def)

text \<open>
  C4, amended. When the fetch fails with a network error, each loader of either script
  replaces the markup of its container with its static error message. On a response with
  a non-success status the loaders of the defensive script do the same; the loaders of
  \<^verbatim>\<open>src/web/script.js\<close> do not read the status and treat such a response as they treat a
  successful one with the same body. No run of a loader alters the container or the array
  of the other content type.
\<close>

theorem loader_failure:
  "articles_container (loadArticlesD Rejected s) = articles_error_htmlD
   \<and> videos_container (loadVideosD Rejected s) = videos_error_htmlD
   \<and> (\<not> ok r \<longrightarrow>
        articles_container (loadArticlesD (Resolved r) s) = articles_error_htmlD
        \<and> videos_container (loadVideosD (Resolved r) s) = videos_error_htmlD)
   \<and> articles_container (loadArticles Rejected s) = articles_error_html
   \<and> videos_container (loadVideos Rejected s) = videos_error_html
   \<and> loadArticles (Resolved (Response b j)) s = loadArticles (Resolved (Response True j)) s
   \<and> loadVideos (Resolved (Response b j)) s = loadVideos (Resolved (Response True j)) s
   \<and> videos_container (loadArticles f s) = videos_container s
   \<and> videosData (loadArticles f s) = videosData s
   \<and> articles_container (loadVideos f s) = articles_container s
   \<and> articlesData (loadVideos f s) = articlesData s
   \<and> videos_container (loadArticlesD f s) = videos_container s
   \<and> videosData (loadArticlesD f s) = videosData s
   \<and> articles_container (loadVideosD f s) = articles_container s
   \<and> articlesData (loadVideosD f s) = articlesData s"
proof -
  have fail: "articles_container (loadArticlesD Rejected s) = articles_error_htmlD
   \<and> videos_container (loadVideosD Rejected s) = videos_error_htmlD
   \<and> (\<not> ok r \<longrightarrow>
        articles_container (loadArticlesD (Resolved r) s) = articles_error_htmlD
        \<and> videos_container (loadVideosD (Resolved r) s) = videos_error_htmlD)
   \<and> articles_container (loadArticles Rejected s) = articles_error_html
   \<and> videos_container (loadVideos Rejected s) = videos_error_html"
    by (simp add: loadArticlesD_def loadArticlesD_catch_def loadVideosD_def
        loadVideosD_catch_def loadArticles_def loadArticles_catch_def loadVideos_def
        loadVideos_catch_def)
  have status: "loadArticles (Resolved (Response b j)) s = loadArticles (Resolved (Response True j)) s
   \<and> loadVideos (Resolved (Response b j)) s = loadVideos (Resolved (Response True j)) s"
    by (simp add: loadArticles_def loadVideos_def)
  from fail status loadArticles_other [of f s] loadVideos_other [of f s]
    loadArticlesD_other [of f s] loadVideosD_other [of f s]
  show ?thesis by simp
qed

theorem loader_failure_witness:
  "ok (Response False (Some (DocObject (Some [art_sleep]) (Some [vid_calm])))) = False
   \<and> articles_container
        (loadArticlesD (Resolved (Response False (Some (DocObject (Some [art_sleep]) (Some [vid_calm])))))
          page0) = articles_error_htmlD
   \<and> videos_container
        (loadVideosD (Resolved (Response False (Some (DocObject (Some [art_sleep]) (Some [vid_calm])))))
          page0) = videos_error_htmlD
   \<and> videos_container
        (loadArticlesD (Resolved (Response False (Some (DocObject (Some [art_sleep]) (Some [vid_calm])))))
          page0) = []
   \<and> videosData
        (loadArticlesD (Resolved (Response False (Some (DocObject (Some [art_sleep]) (Some [vid_calm])))))
          page0) = Some []"
  using loader_failure [of page0 "Response False (Some (DocObject (Some [art_sleep]) (Some [vid_calm])))"
      False None "Resolved (Response False (Some (DocObject (Some [art_sleep]) (Some [vid_calm]))))"]
  by (simp add: page0_def)

text \<open>
  C10. In the script of \<^verbatim>\<open>src/web/script.js\<close>, when the fetch succeeds with a JSON
  document that has no \<^verbatim>\<open>articles\<close> key (no \<^verbatim>\<open>videos\<close> key for the videos' loader), the
  loader assigns \<^verbatim>\<open>undefined\<close> to its array, the renderer throws a \<^verbatim>\<open>TypeError\<close> on
  reading the length, and the \<^verbatim>\<open>catch\<close> block logs it and writes the static error message:
  the container shows what it shows after a network failure. The document \<^verbatim>\<open>null\<close> ends
  in the same message, the read of the key throwing in the loader itself.
\<close>

theorem missing_key_shows_error:
  "(get_articles doc = Inr None \<longrightarrow>
      renderArticles None (s\<lparr>articlesData := None\<rparr>) = Inl TypeError
      \<and> loadArticles (Resolved (Response b (Some doc))) s =
          s\<lparr>articlesData := None, console := console s @ [(articles_log_msg, TypeError)],
            articles_container := articles_error_html\<rparr>
      \<and> articles_container (loadArticles (Resolved (Response b (Some doc))) s) =
          articles_container (loadArticles Rejected s))
   \<and> (get_videos doc = Inr None \<longrightarrow>
      renderVideos None (s\<lparr>videosData := None\<rparr>) = Inl TypeError
      \<and> loadVideos (Resolved (Response b (Some doc))) s =
          s\<lparr>videosData := None, console := console s @ [(videos_log_msg, TypeError)],
            videos_container := videos_error_html\<rparr>
      \<and> videos_container (loadVideos (Resolved (Response b (Some doc))) s) =
          videos_container (loadVideos Rejected s))
   \<and> articles_container (loadArticles (Resolved (Response b (Some DocNull))) s) =
       articles_error_html
   \<and> videos_container (loadVideos (Resolved (Response b (Some DocNull))) s) =
       videos_error_html
   \<and> get_articles DocOther = Inr None \<and> get_articles (DocObject None v) = Inr None
   \<and> get_videos DocOther = Inr None \<and> get_videos (DocObject a None) = Inr None"
  by (simp add: loadArticles_def loadArticles_catch_def renderArticles_def
      loadVideos_def loadVideos_catch_def renderVideos_def Let_def)

theorem missing_key_shows_error_witness:
  "get_articles (DocObject None (Some [vid_calm])) = Inr None
   \<and> articles_container
        (loadArticles (Resolved (Response True (Some (DocObject None (Some [vid_calm]))))) page0) =
       articles_error_html
   \<and> articlesData
        (loadArticles (Resolved (Response True (Some (DocObject None (Some [vid_calm]))))) page0) =
       None
   \<and> console
        (loadArticles (Resolved (Response True (Some (DocObject None (Some [vid_calm]))))) page0) =
       [(articles_log_msg, TypeError)]
   \<and> get_videos (DocObject (Some [art_sleep]) None) = Inr None
   \<and> videos_container
        (loadVideos (Resolved (Response True (Some (DocObject (Some [art_sleep]) None)))) page0) =
       videos_error_html"
  using missing_key_shows_error [of "DocObject None (Some [vid_calm])" page0 True]
    missing_key_shows_error [of "DocObject (Some [art_sleep]) None" page0 True]
  by (simp add: page0_def)

end
